theory Spec2Isabelle
  imports Complex_Main "HOL-Library.Signed_Division"
begin

section \<open>Sinc aperture photometry: a model of SincPhotometry.cc and EllipticalApertureFlux.cc\<close>

text \<open>
  Conventions of the model.
  \<^item> A finite C++ \<open>double\<close> is read as the \<open>real\<close> it denotes, and arithmetic on finite
    numbers is exact: rounding, overflow and underflow are not modelled.
  \<^item> In \<open>SincPhotometry.cc\<close> a division is HOL's total division; a NaN that the source
    produces on purpose (\<open>std::numeric_limits<double>::quiet_NaN()\<close>, the square root of
    a negative number) is \<open>None\<close> of a \<open>real option\<close>.
  \<^item> In \<open>EllipticalApertureFlux.cc\<close> the results of the arithmetic are values of the
    type \<open>double\<close> below, which has the infinities and NaN that a division by zero or a
    square root of a negative number gives.
  \<^item> A \<open>float\<close> key of the coefficient cache is the real it denotes, and the
    conversion of a \<open>double\<close> to \<open>float\<close> and the \<open>float\<close> subtraction of two keys
    round to the nearest \<open>float\<close> (\<open>toFloat\<close> below).
  \<^item> A C++ exception is the \<open>Inl\<close> branch of a sum type. A read through a reference
    whose referent is dead is undefined behaviour; the model ends such a run with
    \<open>UndefinedBehaviour\<close> and does not follow it further.
  \<^item> Functions of other packages (afw's images, \<open>offsetImage\<close>, \<open>integrate\<close>,
    \<open>integrate2d\<close>, \<open>calculateSincApertureFlux\<close>) are parameters of the model.
\<close>

datatype error = InvalidParameterException | LengthErrorException | UndefinedBehaviour

subsection \<open>CircularAperture (SincPhotometry.cc, lines 117--212)\<close>

record aperture =
  radius1 :: real
  radius2 :: real
  taperwidth1 :: real
  taperwidth2 :: real
  k1 :: real
  k2 :: real
  taperLo1 :: real
  taperHi1 :: real
  taperLo2 :: real
  taperHi2 :: real

text \<open>The member initialiser list of the constructor (lines 126--135).\<close>

definition initAperture :: "real \<Rightarrow> real \<Rightarrow> real \<Rightarrow> aperture" where
  "initAperture r1 r2 taperwidth =
     \<lparr> radius1 = r1, radius2 = r2,
       taperwidth1 = taperwidth, taperwidth2 = taperwidth,
       k1 = 1 / (2 * taperwidth), k2 = 1 / (2 * taperwidth),
       taperLo1 = r1 - 0.5 * taperwidth, taperHi1 = r1 + 0.5 * taperwidth,
       taperLo2 = r2 - 0.5 * taperwidth, taperHi2 = r2 + 0.5 * taperwidth \<rparr>"

text \<open>Lines 152--155: no inner taper for a disk.\<close>

definition zeroInnerTaper :: "aperture \<Rightarrow> aperture" where
  "zeroInnerTaper a =
     (if radius1 a = 0 then a\<lparr>taperwidth1 := 0, k1 := 0\<rparr> else a)"

text \<open>Lines 158--161: no room to taper at r = 0.\<close>

definition shrinkInnerTaper :: "aperture \<Rightarrow> aperture" where
  "shrinkInnerTaper a =
     (if radius1 a < 0.5 * taperwidth1 a
      then a\<lparr>taperwidth1 := 2 * radius1 a, k1 := 1 / (2 * (2 * radius1 a))\<rparr>
      else a)"

text \<open>
  Lines 164--182: no room to taper between the two radii. The inner test is written
  as the source has it, \<open>(_radius2 - _radius2) < 0.5*_taperwidth1\<close>.
\<close>

definition fitTapers :: "aperture \<Rightarrow> aperture" where
  "fitTapers a =
     (if radius2 a - radius1 a < 0.5 * (taperwidth1 a + taperwidth2 a) then
        (let b = (if radius2 a - radius2 a < 0.5 * taperwidth1 a
                  then a\<lparr>taperwidth1 := 0.5 * (radius2 a - radius1 a),
                         taperwidth2 := 0.5 * (radius2 a - radius1 a),
                         k1 := 1 / (2 * (0.5 * (radius2 a - radius1 a))),
                         k2 := 1 / (2 * (0.5 * (radius2 a - radius1 a)))\<rparr>
                  else a\<lparr>taperwidth2 := radius2 a - radius1 a - taperwidth1 a,
                         k2 := 1 / (2 * (radius2 a - radius1 a - taperwidth1 a))\<rparr>)
         in b\<lparr>taperLo1 := radius1 b - 0.5 * taperwidth1 b,
               taperHi1 := radius1 b + 0.5 * taperwidth1 b,
               taperLo2 := radius2 b - 0.5 * taperwidth2 b,
               taperHi2 := radius2 b + 0.5 * taperwidth2 b\<rparr>)
      else a)"

definition CircularAperture :: "real \<Rightarrow> real \<Rightarrow> real \<Rightarrow> error + aperture" where
  "CircularAperture r1 r2 taperwidth =
     (let a = initAperture r1 r2 taperwidth in
      if radius1 a > radius2 a then Inl InvalidParameterException
      else if radius1 a < 0 \<or> radius2 a < 0 then Inl InvalidParameterException
      else Inr (fitTapers (shrinkInnerTaper (zeroInnerTaper a))))"

text \<open>\<open>operator()\<close>, lines 188--201: the throughput at \<open>(x, y)\<close>.\<close>

definition throughput :: "aperture \<Rightarrow> real \<Rightarrow> real \<Rightarrow> real" where
  "throughput a x y =
     (let xyrad = sqrt (x * x + y * y) in
      if xyrad < taperLo1 a then 0
      else if xyrad \<ge> taperLo1 a \<and> xyrad \<le> taperHi1 a
        then 0.5 * (1 + cos ((2 * pi * k1 a) * (xyrad - taperHi1 a)))
      else if xyrad > taperHi1 a \<and> xyrad \<le> taperLo2 a then 1
      else if xyrad > taperLo2 a \<and> xyrad \<le> taperHi2 a
        then 0.5 * (1 + cos ((2 * pi * k2 a) * (xyrad - taperLo2 a)))
      else 0)"

subsection \<open>Images\<close>

text \<open>
  An afw image: the origin \<open>getX0(), getY0()\<close>, the dimensions, and the pixel read by
  \<open>img(x, y)\<close> at column \<open>x\<close> and row \<open>y\<close> counted from the image's own corner.
  The buffer is the part of \<open>pix\<close> with \<open>0 \<le> x < iwidth\<close> and \<open>0 \<le> y < iheight\<close>.
\<close>

record image =
  ix0 :: int
  iy0 :: int
  iwidth :: int
  iheight :: int
  pix :: "int \<Rightarrow> int \<Rightarrow> real"

subsection \<open>The integrands (lines 107--111 and 215--258)\<close>

definition sinc :: "real \<Rightarrow> real" where
  "sinc x = (if x \<noteq> 0 then sin x / x else 1)"

text \<open>\<open>CircApPolar\<close>: its constructor builds \<open>CircularAperture(0.0, radius, taperwidth)\<close>.\<close>

definition CircApPolar :: "real \<Rightarrow> real \<Rightarrow> error + (real \<Rightarrow> real)" where
  "CircApPolar radius taperwidth =
     (case CircularAperture 0 radius taperwidth of
        Inl e \<Rightarrow> Inl e
      | Inr ap \<Rightarrow> Inr (\<lambda>r. r * throughput ap r 0))"

definition SincAperture :: "aperture \<Rightarrow> int \<Rightarrow> int \<Rightarrow> real \<Rightarrow> real \<Rightarrow> real" where
  "SincAperture ap ix iy x y =
     (let xtaper = 10; ytaper = 10;
          fourierConvention = 1 * pi;
          dx = fourierConvention * (x - real_of_int ix);
          dy = fourierConvention * (y - real_of_int iy);
          fx = 0.5 * (1 + cos (dx / xtaper)) * sinc dx;
          fy = 0.5 * (1 + cos (dy / ytaper)) * sinc dy
      in 1 + throughput ap x y * fx * fy)"

subsection \<open>The fuzzy key order and the coefficient cache (lines 318--368)\<close>

text \<open>\<open>std::numeric_limits<float>::epsilon()\<close>.\<close>

definition epsilon :: real where
  "epsilon = 1 / 2 ^ 23"

text \<open>
  IEEE binary32, round to nearest, ties to even, for numbers within the range of
  \<open>float\<close>: the exponent of \<open>x\<close> (not below that of the subnormal numbers), the
  spacing of the floats around \<open>x\<close>, and the nearest multiple of that spacing. The
  conversion of a number beyond the range of \<open>float\<close> is undefined in C++ and is not
  described by \<open>toFloat\<close>.
\<close>

definition float_exponent :: "real \<Rightarrow> int" where
  "float_exponent x = max (- 126) \<lfloor>log 2 \<bar>x\<bar>\<rfloor>"

definition float_ulp :: "real \<Rightarrow> real" where
  "float_ulp x = power_int 2 (float_exponent x - 23)"

definition round_half_even :: "real \<Rightarrow> int" where
  "round_half_even q =
     (if q - real_of_int \<lfloor>q\<rfloor> < 1/2 then \<lfloor>q\<rfloor>
      else if q - real_of_int \<lfloor>q\<rfloor> > 1/2 then \<lfloor>q\<rfloor> + 1
      else if even \<lfloor>q\<rfloor> then \<lfloor>q\<rfloor> else \<lfloor>q\<rfloor> + 1)"

definition toFloat :: "real \<Rightarrow> real" where
  "toFloat x =
     (if x = 0 then 0
      else sgn x * (real_of_int (round_half_even (\<bar>x\<bar> / float_ulp x)) * float_ulp x))"

text \<open>
  \<open>fuzzyCompare<float>\<close>, lines 321--332: \<open>x\<close> and \<open>y\<close> are floats and \<open>x - y\<close> is
  their \<open>float\<close> difference.
\<close>

definition fuzzyCompare :: "real \<Rightarrow> real \<Rightarrow> bool" where
  "fuzzyCompare x y =
     (if \<bar>toFloat (x - y)\<bar> < epsilon then False
      else (if toFloat (x - y) < 0 then True else False))"

text \<open>
  A \<open>std::map\<close> with comparison \<open>cmp\<close> is its list of entries in iteration order.
  \<open>find\<close> takes the first entry whose key is not \<open>cmp\<close>-below the requested key
  (\<open>lower_bound\<close>) and reports it unless the requested key is \<open>cmp\<close>-below it.
  \<open>operator[]\<close> followed by an assignment overwrites the value of that entry, or
  inserts a new entry in front of it.
\<close>

fun mapFind :: "('k \<Rightarrow> 'k \<Rightarrow> bool) \<Rightarrow> ('k \<times> 'v) list \<Rightarrow> 'k \<Rightarrow> 'v option" where
  "mapFind cmp [] k = None"
| "mapFind cmp ((a, v) # m) k =
     (if cmp a k then mapFind cmp m k
      else if cmp k a then None
      else Some v)"

fun mapAssign :: "('k \<Rightarrow> 'k \<Rightarrow> bool) \<Rightarrow> 'k \<Rightarrow> 'v \<Rightarrow> ('k \<times> 'v) list \<Rightarrow> ('k \<times> 'v) list" where
  "mapAssign cmp k v [] = [(k, v)]"
| "mapAssign cmp k v ((a, w) # m) =
     (if cmp a k then (a, w) # mapAssign cmp k v m
      else if cmp k a then (k, v) # (a, w) # m
      else (a, v) # m)"

type_synonym coeffImageMap = "(real \<times> image) list"
type_synonym coeffImageMapMap = "(real \<times> coeffImageMap) list"

text \<open>
  The maps are \<open>std::map<float, ..., fuzzyCompare<float> >\<close> (lines 339--340), so their
  keys are floats and a \<open>double\<close> passed to \<open>find\<close> or \<open>operator[]\<close> is converted to
  \<open>float\<close> first. Lines 374--381: the two nested \<open>find\<close> calls.
\<close>

definition cacheFind :: "coeffImageMapMap \<Rightarrow> real \<Rightarrow> real \<Rightarrow> image option" where
  "cacheFind coeffImages innerRadius radius =
     (case mapFind fuzzyCompare coeffImages (toFloat innerRadius) of
        None \<Rightarrow> None
      | Some rmap \<Rightarrow> mapFind fuzzyCompare rmap (toFloat radius))"

text \<open>Line 470: \<open>_coeffImages[innerRadius][radius] = coeffImage\<close>.\<close>

definition cacheStore :: "coeffImageMapMap \<Rightarrow> real \<Rightarrow> real \<Rightarrow> image \<Rightarrow> coeffImageMapMap" where
  "cacheStore coeffImages innerRadius radius coeffImage =
     (let rmap = (case mapFind fuzzyCompare coeffImages (toFloat innerRadius) of
                    None \<Rightarrow> [] | Some m \<Rightarrow> m)
      in mapAssign fuzzyCompare (toFloat innerRadius)
           (mapAssign fuzzyCompare (toFloat radius) coeffImage rmap) coeffImages)"

subsection \<open>Kernel synthesis by direct quadrature (lines 370--473)\<close>

text \<open>
  \<open>afwMath::integrate(func, a, b, eps)\<close> and
  \<open>afwMath::integrate2d(func, x1, x2, y1, y2, eps)\<close> are parameters.
\<close>

type_synonym quad1 = "(real \<Rightarrow> real) \<Rightarrow> real \<Rightarrow> real \<Rightarrow> real \<Rightarrow> real"
type_synonym quad2 = "(real \<Rightarrow> real \<Rightarrow> real) \<Rightarrow> real \<Rightarrow> real \<Rightarrow> real \<Rightarrow> real \<Rightarrow> real \<Rightarrow> real"

text \<open>\<open>static_cast<int>\<close> of a double rounds toward zero.\<close>

definition truncInt :: "real \<Rightarrow> int" where
  "truncInt x = (if x \<ge> 0 then \<lfloor>x\<rfloor> else \<lceil>x\<rceil>)"

definition tolerance :: real where
  "tolerance = 1 / 10 ^ 12"

definition dr :: real where
  "dr = 1 / 10 ^ 6"

definition maxIt :: nat where
  "maxIt = 20"

text \<open>
  The loop of lines 412--422 with its variables \<open>radIn\<close>, \<open>err\<close> and \<open>i\<close>; it returns
  the last \<open>radIn\<close> and \<open>i\<close>. Each pass constructs two \<open>CircApPolar\<close> objects, whose
  constructor can throw.
\<close>

function effectiveRadiusLoop ::
  "quad1 \<Rightarrow> real \<Rightarrow> real \<Rightarrow> real \<Rightarrow> real \<Rightarrow> nat \<Rightarrow> error + (real \<times> nat)" where
  "effectiveRadiusLoop integrate apEff taperwidth radIn err i =
     (if err > tolerance \<and> i < maxIt then
        (case CircApPolar radIn taperwidth of
           Inl e \<Rightarrow> Inl e
         | Inr apPolar1 \<Rightarrow>
            (case CircApPolar (radIn + dr) taperwidth of
               Inl e \<Rightarrow> Inl e
             | Inr apPolar2 \<Rightarrow>
                (let a1 = pi * 2 * integrate apPolar1 0 (radIn + taperwidth) tolerance;
                     a2 = pi * 2 * integrate apPolar2 0 (radIn + dr + taperwidth) tolerance;
                     dadr = (a2 - a1) / dr;
                     radNew = radIn - (a1 - apEff) / dadr
                 in effectiveRadiusLoop integrate apEff taperwidth radNew
                      ((a1 - apEff) / apEff) (i + 1))))
      else Inr (radIn, i))"
  by pat_completeness auto
termination
  by (relation "measure (\<lambda>(integrate, apEff, taperwidth, radIn, err, i). maxIt - i)") auto

declare effectiveRadiusLoop.simps [simp del]

text \<open>Lines 405--411: the initial values of the loop.\<close>

definition effectiveRadius :: "quad1 \<Rightarrow> real \<Rightarrow> real \<Rightarrow> error + (real \<times> nat)" where
  "effectiveRadius integrate radius taperwidth =
     effectiveRadiusLoop integrate (pi * radius * radius) taperwidth radius (2 * tolerance) 0"

text \<open>
  Lines 436--455: the coefficient written for the pixel at offset \<open>(iX, iY)\<close> from the
  aperture centre. \<open>xwidth/2\<close> is a division of ints.
\<close>

definition coefficient :: "quad2 \<Rightarrow> aperture \<Rightarrow> real \<Rightarrow> int \<Rightarrow> int \<Rightarrow> int \<Rightarrow> real" where
  "coefficient integrate2d ap limit xwidth iX iY =
     (let x1 = - limit; x2 = limit; y1 = - limit; y2 = limit;
          integral = integrate2d (SincAperture ap iX iY) x1 x2 y1 y2 (1 / 10 ^ 8);
          dx = real_of_int iX; dy = real_of_int iY
      in if sqrt (dx * dx + dy * dy) < real_of_int (xwidth sdiv 2)
         then integral - (x2 - x1) * (y2 - y1) else 0)"

text \<open>
  Lines 385--401 and 423--455: the window and the fill, given the aperture. The pixel in
  column \<open>x\<close> and row \<open>y\<close> of the buffer holds the coefficient of offset
  \<open>(x0 + x, y0 + y)\<close>.
\<close>

definition coeffWindow :: "quad2 \<Rightarrow> aperture \<Rightarrow> real \<Rightarrow> real \<Rightarrow> image" where
  "coeffWindow integrate2d ap radius taperwidth =
     (let bufferWidth = 10;
          xdwidth = 2 * (radius + bufferWidth);
          ydwidth = 2 * (radius + bufferWidth);
          xwidth = truncInt xdwidth + 1;
          ywidth = truncInt ydwidth + 1;
          x0 = (- xwidth) sdiv 2;
          y0 = (- ywidth) sdiv 2;
          limit = radius + taperwidth
      in \<lparr> ix0 = x0, iy0 = y0, iwidth = xwidth, iheight = ywidth,
           pix = (\<lambda>x y. coefficient integrate2d ap limit xwidth (x0 + x) (y0 + y)) \<rparr>)"

text \<open>
  The synthesis of \<open>_calculateImage\<close> after a cache miss: the effective-radius loop,
  then the aperture of line 423, then the fill. The sum of lines 458--464 is only read
  by a commented-out \<open>printf\<close> and is left out.
\<close>

definition synthesize :: "quad1 \<Rightarrow> quad2 \<Rightarrow> real \<Rightarrow> real \<Rightarrow> real \<Rightarrow> error + image" where
  "synthesize integrate integrate2d innerRadius radius taperwidth =
     (case effectiveRadius integrate radius taperwidth of
        Inl e \<Rightarrow> Inl e
      | Inr (radIn, i) \<Rightarrow>
         (case CircularAperture innerRadius radius taperwidth of
            Inl e \<Rightarrow> Inl e
          | Inr ap \<Rightarrow> Inr (coeffWindow integrate2d ap radius taperwidth)))"

text \<open>
  The same function with the effective-radius loop, lines 404--422, deleted.
\<close>

definition synthesize_noNewton :: "quad2 \<Rightarrow> real \<Rightarrow> real \<Rightarrow> real \<Rightarrow> error + image" where
  "synthesize_noNewton integrate2d innerRadius radius taperwidth =
     (case CircularAperture innerRadius radius taperwidth of
        Inl e \<Rightarrow> Inl e
      | Inr ap \<Rightarrow> Inr (coeffWindow integrate2d ap radius taperwidth))"

text \<open>
  \<open>_calculateImage\<close>: the cache is the static \<open>_coeffImages\<close>, passed in and returned.
\<close>

definition calculateImage ::
  "quad1 \<Rightarrow> quad2 \<Rightarrow> coeffImageMapMap \<Rightarrow> real \<Rightarrow> real \<Rightarrow> real \<Rightarrow> error + (image \<times> coeffImageMapMap)" where
  "calculateImage integrate integrate2d coeffImages innerRadius radius taperwidth =
     (case cacheFind coeffImages innerRadius radius of
        Some cImage \<Rightarrow> Inr (cImage, coeffImages)
      | None \<Rightarrow>
         (case synthesize integrate integrate2d innerRadius radius taperwidth of
            Inl e \<Rightarrow> Inl e
          | Inr coeffImage \<Rightarrow>
              Inr (coeffImage, cacheStore coeffImages innerRadius radius coeffImage)))"

text \<open>
  \<open>getImage(float r1, float r2, double taperwidth)\<close>, lines 344--349: the radii of the
  caller, doubles, are converted to \<open>float\<close> on the way in, and \<open>_calculateImage\<close>
  receives the converted values.
\<close>

definition getImage ::
  "quad1 \<Rightarrow> quad2 \<Rightarrow> coeffImageMapMap \<Rightarrow> real \<Rightarrow> real \<Rightarrow> real \<Rightarrow> error + (image \<times> coeffImageMapMap)" where
  "getImage integrate integrate2d coeffImages r1 r2 taperwidth =
     calculateImage integrate integrate2d coeffImages (toFloat r1) (toFloat r2) taperwidth"

subsection \<open>FootprintWeightFlux (lines 264--316)\<close>

text \<open>A masked image: origin, dimensions, and its image and variance planes.\<close>

record maskedImage =
  mx0 :: int
  my0 :: int
  mwidth :: int
  mheight :: int
  imagePix :: "int \<Rightarrow> int \<Rightarrow> real"
  variancePix :: "int \<Rightarrow> int \<Rightarrow> real"

text \<open>\<open>afwImage::BBox(PointI(x0, y0), width, height)\<close>.\<close>

record bbox =
  bx0 :: int
  by0 :: int
  bwidth :: int
  bheight :: int

text \<open>
  A C++ reference: its referent while that is alive, or a dangling reference.
\<close>

datatype 'a reference = Live 'a | Dangling

text \<open>
  The member \<open>_wimage\<close> is declared \<open>typename WeightImageT::Ptr const&\<close> (line 312): a
  reference to a shared pointer, not a shared pointer.
\<close>

record weightFlux =
  wimage :: "image reference"
  sumFlux :: real
  sumVar :: real
  fx0 :: int
  fy0 :: int

text \<open>
  The constructor, lines 267--274. Its parameter \<open>wimage\<close> is passed by value, and the
  member initialiser \<open>_wimage(wimage)\<close> binds the member reference to that parameter:
  \<open>constructing\<close> is the object while the constructor runs. The parameter is destroyed
  when the constructor returns, so in the constructed object the reference dangles.
\<close>

definition constructing :: "image \<Rightarrow> weightFlux" where
  "constructing w =
     \<lparr> wimage = Live w, sumFlux = 0, sumVar = 0, fx0 = ix0 w, fy0 = iy0 w \<rparr>"

definition FootprintWeightFlux :: "image \<Rightarrow> weightFlux" where
  "FootprintWeightFlux w = (constructing w)\<lparr>wimage := Dangling\<rparr>"

text \<open>\<open>reset(foot)\<close>, lines 278--293; line 286 reads the image through \<open>_wimage\<close>.\<close>

definition reset :: "weightFlux \<Rightarrow> bbox \<Rightarrow> error + weightFlux" where
  "reset f box =
     (let g = f\<lparr>sumFlux := 0, sumVar := 0, fx0 := bx0 box, fy0 := by0 box\<rparr> in
      case wimage g of
        Dangling \<Rightarrow> Inl UndefinedBehaviour
      | Live w \<Rightarrow>
          if (bwidth box, bheight box) \<noteq> (iwidth w, iheight w)
          then Inl LengthErrorException
          else Inr g)"

text \<open>
  \<open>operator()(iloc, x, y)\<close>, lines 296--305: \<open>iloc\<close> points at the pixel of the masked
  image at position \<open>(x, y)\<close>; line 302 reads the weight through \<open>_wimage\<close>.
\<close>

definition pixelStep :: "maskedImage \<Rightarrow> weightFlux \<Rightarrow> int \<times> int \<Rightarrow> error + weightFlux" where
  "pixelStep mimage f p =
     (let x = fst p; y = snd p;
          ival = imagePix mimage (x - mx0 mimage) (y - my0 mimage);
          vval = variancePix mimage (x - mx0 mimage) (y - my0 mimage)
      in case wimage f of
           Dangling \<Rightarrow> Inl UndefinedBehaviour
         | Live w \<Rightarrow>
             (let wval = pix w (x - fx0 f) (y - fy0 f)
              in Inr (f\<lparr>sumFlux := sumFlux f + wval * ival,
                        sumVar := sumVar f + wval * wval * vval\<rparr>)))"

text \<open>
  \<open>Footprint(bbox, region)\<close> holds one span per row of the box; its pixels, row by row.
\<close>

definition footprintPixels :: "bbox \<Rightarrow> (int \<times> int) list" where
  "footprintPixels box =
     concat (map (\<lambda>y. map (\<lambda>x. (x, y)) [bx0 box .. bx0 box + bwidth box - 1])
                 [by0 box .. by0 box + bheight box - 1])"

text \<open>
  \<open>FootprintFunctor::apply(foot)\<close> belongs to afw; by its contract it calls
  \<open>reset(foot)\<close> and then \<open>operator()\<close> once for every pixel of the footprint.
\<close>

fun applyPixels :: "maskedImage \<Rightarrow> weightFlux \<Rightarrow> (int \<times> int) list \<Rightarrow> error + weightFlux" where
  "applyPixels mimage f [] = Inr f"
| "applyPixels mimage f (p # ps) =
     (case pixelStep mimage f p of
        Inl e \<Rightarrow> Inl e
      | Inr g \<Rightarrow> applyPixels mimage g ps)"

definition applyFunctor :: "maskedImage \<Rightarrow> weightFlux \<Rightarrow> bbox \<Rightarrow> error + weightFlux" where
  "applyFunctor mimage f box =
     (case reset f box of
        Inl e \<Rightarrow> Inl e
      | Inr g \<Rightarrow> applyPixels mimage g (footprintPixels box))"

subsection \<open>SincPhotometry::doMeasure (lines 577--659)\<close>

text \<open>The result object; \<open>None\<close> is NaN.\<close>

record photometry =
  flux :: "real option"
  fluxErr :: "real option"

text \<open>\<open>::sqrt\<close> of a double: NaN below zero.\<close>

definition c_sqrt :: "real \<Rightarrow> real option" where
  "c_sqrt x = (if x < 0 then None else Some (sqrt x))"

text \<open>Lines 627--632: the corners of the kernel box clipped to the data image.\<close>

definition clipBounds :: "image \<Rightarrow> maskedImage \<Rightarrow> int \<times> int \<times> int \<times> int" where
  "clipBounds cimage mimage =
     (let x1 = (if ix0 cimage < mx0 mimage then mx0 mimage else ix0 cimage);
          y1 = (if iy0 cimage < my0 mimage then my0 mimage else iy0 cimage);
          x2 = (if ix0 cimage + iwidth cimage > mx0 mimage + mwidth mimage
                then mx0 mimage + mwidth mimage - 1 else ix0 cimage + iwidth cimage - 1);
          y2 = (if iy0 cimage + iheight cimage > my0 mimage + mheight mimage
                then my0 mimage + mheight mimage - 1 else iy0 cimage + iheight cimage - 1)
      in (x1, y1, x2, y2))"

text \<open>
  Lines 610--644. \<open>offsetImage\<close> is \<open>afwMath::offsetImage\<close> and \<open>subImage\<close> is the
  constructor \<open>Image(img, bbox, false)\<close>, both of afw; the constructor can throw.
\<close>

type_synonym offsetFn = "image \<Rightarrow> real \<Rightarrow> real \<Rightarrow> image"
type_synonym subImageFn = "image \<Rightarrow> bbox \<Rightarrow> error + image"

definition clipKernel ::
  "offsetFn \<Rightarrow> subImageFn \<Rightarrow> maskedImage \<Rightarrow> image \<Rightarrow> real \<Rightarrow> real \<Rightarrow> error + (image \<times> bbox)" where
  "clipKernel offsetImage subImage mimage cimage0 xcen ycen =
     (let cimage = offsetImage cimage0 xcen ycen;
          box = \<lparr> bx0 = ix0 cimage, by0 = iy0 cimage,
                  bwidth = iwidth cimage, bheight = iheight cimage \<rparr>
      in case clipBounds cimage mimage of (x1, y1, x2, y2) \<Rightarrow>
         if x2 - x1 + 1 \<noteq> iwidth cimage \<or> y2 - y1 + 1 \<noteq> iheight cimage then
           (case subImage cimage \<lparr> bx0 = x1 - ix0 cimage, by0 = y1 - iy0 cimage,
                                   bwidth = x2 - x1 + 1, bheight = y2 - y1 + 1 \<rparr> of
              Inl e \<Rightarrow> Inl e
            | Inr sub \<Rightarrow>
                Inr (offsetImage sub (real_of_int x1) (real_of_int y1),
                     \<lparr> bx0 = x1, by0 = y1, bwidth = x2 - x1 + 1, bheight = y2 - y1 + 1 \<rparr>))
         else Inr (cimage, box))"

text \<open>Lines 651--656.\<close>

definition measureFlux :: "maskedImage \<Rightarrow> image \<Rightarrow> bbox \<Rightarrow> error + photometry" where
  "measureFlux mimage cimage box =
     (case applyFunctor mimage (FootprintWeightFlux cimage) box of
        Inl e \<Rightarrow> Inl e
      | Inr f \<Rightarrow> Inr \<lparr> flux = Some (sumFlux f), fluxErr = c_sqrt (sumVar f) \<rparr>)"

text \<open>
  Modelled from the spec: the default taper width of \<open>getCoeffImage\<close>, which
  \<open>doMeasure\<close> calls with two arguments. The default is declared in
  \<open>detail/SincPhotometry.h\<close>, which is not among the sources; the spec gives
  \<open>get(innerRadius, outerRadius, taperWidth=1.0)\<close>, the default that \<open>getImage\<close> has.
\<close>

definition defaultTaperwidth :: real where
  "defaultTaperwidth = 1"

text \<open>
  \<open>doMeasure\<close>: \<open>innerRadius\<close> and \<open>radius\<close> are the static members set by
  \<open>doConfigure\<close>, \<open>peak\<close> is \<open>None\<close> for a null pointer, and the coefficient cache is
  passed in and returned.
\<close>

definition doMeasure ::
  "offsetFn \<Rightarrow> subImageFn \<Rightarrow> quad1 \<Rightarrow> quad2 \<Rightarrow> coeffImageMapMap \<Rightarrow> real \<Rightarrow> real \<Rightarrow>
   maskedImage \<Rightarrow> (real \<times> real) option \<Rightarrow> error + (photometry \<times> coeffImageMapMap)" where
  "doMeasure offsetImage subImage integrate integrate2d coeffImages innerRadius radius mimage peak =
     (case peak of
        None \<Rightarrow> Inr (\<lparr> flux = None, fluxErr = None \<rparr>, coeffImages)
      | Some (xcen, ycen) \<Rightarrow>
         (case getImage integrate integrate2d coeffImages innerRadius radius defaultTaperwidth of
            Inl e \<Rightarrow> Inl e
          | Inr (cimage0, coeffImages') \<Rightarrow>
             (case clipKernel offsetImage subImage mimage cimage0 xcen ycen of
                Inl e \<Rightarrow> Inl e
              | Inr (cimage, box) \<Rightarrow>
                 (case measureFlux mimage cimage box of
                    Inl e \<Rightarrow> Inl e
                  | Inr p \<Rightarrow> Inr (p, coeffImages')))))"

subsection \<open>EllipticalApertureFlux::\_apply (EllipticalApertureFlux.cc, lines 67--102)\<close>

text \<open>
  The doubles that the arithmetic of \<open>_apply\<close> can produce from finite numbers: a finite
  number, an infinity of either sign, or NaN, with the product, the quotient and the
  square root of IEEE arithmetic on them. A zero dividend over a zero divisor is NaN, a
  non-zero one over a zero is an infinity; the signs of zeros and infinities are not
  kept, since no operation used here depends on them.
\<close>

datatype double = Finite real | Infinite | NaN

fun dmult :: "double \<Rightarrow> double \<Rightarrow> double" where
  "dmult NaN y = NaN"
| "dmult x NaN = NaN"
| "dmult Infinite Infinite = Infinite"
| "dmult Infinite (Finite y) = (if y = 0 then NaN else Infinite)"
| "dmult (Finite x) Infinite = (if x = 0 then NaN else Infinite)"
| "dmult (Finite x) (Finite y) = Finite (x * y)"

fun ddiv :: "double \<Rightarrow> double \<Rightarrow> double" where
  "ddiv NaN y = NaN"
| "ddiv x NaN = NaN"
| "ddiv Infinite Infinite = NaN"
| "ddiv Infinite (Finite y) = Infinite"
| "ddiv (Finite x) Infinite = Finite 0"
| "ddiv (Finite x) (Finite y) =
     (if y \<noteq> 0 then Finite (x / y) else if x = 0 then NaN else Infinite)"

definition dsqrt :: "real \<Rightarrow> double" where
  "dsqrt x = (if x < 0 then NaN else Finite (sqrt x))"

text \<open>
  \<open>afw::geom::ellipses::Axes\<close>: the shape of the source has finite axes; \<open>scale\<close>
  multiplies both axes by a factor and gives the axes of the scaled ellipse.
\<close>

record 'a axes =
  axisA :: 'a
  axisB :: 'a
  axisTheta :: 'a

definition scale :: "real axes \<Rightarrow> double \<Rightarrow> double axes" where
  "scale s ratio =
     \<lparr> axisA = dmult (Finite (axisA s)) ratio, axisB = dmult (Finite (axisB s)) ratio,
       axisTheta = Finite (axisTheta s) \<rparr>"

text \<open>
  The fields of the source record that \<open>_apply\<close> reads and writes: \<open>fluxField i\<close> is the
  field of key \<open>_fluxKey[i]\<close>, \<open>None\<close> while nothing has been stored in it.
\<close>

record source =
  shapeFlag :: bool
  shape :: "real axes"
  flag :: bool
  nProfile :: int
  fluxField :: "nat \<Rightarrow> double option"
  errField :: "nat \<Rightarrow> double option"

text \<open>
  \<open>calculateSincApertureFlux(mimage, Ellipse(outer, center), ratio)\<close> is a parameter; it
  returns the pair (flux, error) or throws.
\<close>

type_synonym sincFluxFn =
  "maskedImage \<Rightarrow> double axes \<times> (real \<times> real) \<Rightarrow> double \<Rightarrow> error + (double \<times> double)"

text \<open>
  The loop of lines 87--99 from index \<open>i\<close> on, over the radii still to do. The result
  is the source record as the loop leaves it and the exception, if one ended it.
\<close>

fun profileLoop ::
  "sincFluxFn \<Rightarrow> maskedImage \<Rightarrow> real axes \<Rightarrow> real \<times> real \<Rightarrow> double \<Rightarrow> real list \<Rightarrow> nat \<Rightarrow>
   double \<Rightarrow> source \<Rightarrow> source \<times> error option" where
  "profileLoop calc mimage shp center fac [] i oradius src = (src, None)"
| "profileLoop calc mimage shp center fac (r # radii) i oradius src =
     (let outer = scale shp (dmult fac (Finite r)) in
      case calc mimage (outer, center) (ddiv oradius (axisA outer)) of
        Inl e \<Rightarrow> (src, Some e)
      | Inr fl \<Rightarrow>
          profileLoop calc mimage shp center fac radii (i + 1) (axisA outer)
            (src\<lparr>fluxField := (fluxField src)(i := Some (fst fl)),
                 errField := (errField src)(i := Some (snd fl))\<rparr>))"

definition apply_profile ::
  "sincFluxFn \<Rightarrow> real list \<Rightarrow> source \<Rightarrow> maskedImage \<Rightarrow> real \<times> real \<Rightarrow> source \<times> error option" where
  "apply_profile calc radii source0 mimage center =
     (let source1 = source0\<lparr>flag := True, nProfile := 0\<rparr> in
      if shapeFlag source1 then (source1, None)
      else
        (let shp = shape source1;
             nradii = int (length radii);
             fac = ddiv (Finite 1) (dsqrt (axisA shp * axisB shp))
         in case profileLoop calc mimage shp center fac radii 0 (Finite 0) source1 of
              (source2, Some e) \<Rightarrow> (source2, Some e)
            | (source2, None) \<Rightarrow> (source2\<lparr>nProfile := nradii, flag := False\<rparr>, None)))"

subsection \<open>Stand-ins for the external routines, for evaluating the model\<close>

text \<open>
  A one-dimensional rule that returns the integral of \<open>r\<close> over \<open>[0, b - 1]\<close>, a midpoint
  rule in two dimensions, a shift of the image origin by whole pixels, and a sub-image
  with origin zero that must fit in its parent.
\<close>

definition diskQuad :: quad1 where
  "diskQuad f a b eps = (b - 1) * (b - 1) / 2"

definition midpointQuad2 :: quad2 where
  "midpointQuad2 f x1 x2 y1 y2 eps =
     (x2 - x1) * (y2 - y1) * f ((x1 + x2) / 2) ((y1 + y2) / 2)"

definition shiftOrigin :: offsetFn where
  "shiftOrigin img dx dy = img\<lparr>ix0 := ix0 img + \<lfloor>dx\<rfloor>, iy0 := iy0 img + \<lfloor>dy\<rfloor>\<rparr>"

definition cropImage :: subImageFn where
  "cropImage img box =
     (if bx0 box < 0 \<or> by0 box < 0 \<or> bwidth box < 0 \<or> bheight box < 0 \<or>
         bx0 box + bwidth box > iwidth img \<or> by0 box + bheight box > iheight img
      then Inl LengthErrorException
      else Inr \<lparr> ix0 = 0, iy0 = 0,
                 iwidth = bwidth box, iheight = bheight box,
                 pix = (\<lambda>x y. pix img (x + bx0 box) (y + by0 box)) \<rparr>)"

text \<open>
  The kernel that these stand-ins give for the radii \<open>(0, 1/2)\<close> and taper width 1, and
  a small kernel of unit weights.
\<close>

definition halfKernel :: image where
  "halfKernel =
     coeffWindow midpointQuad2 (initAperture 0 (1/2) 1\<lparr>taperwidth1 := 0, k1 := 0\<rparr>) (1/2) 1"

definition unitKernel :: image where
  "unitKernel = \<lparr> ix0 = -1, iy0 = -1, iwidth = 3, iheight = 3, pix = (\<lambda>x y. 1) \<rparr>"

text \<open>
  A data image of 50 by 50 pixels with the value 2 and the variance 1 everywhere, a source
  with a valid shape of axes 4 and 1, and two stand-ins for
  \<open>calculateSincApertureFlux\<close>: one returns the ratio it is passed as the flux and
  the semi-major axis of the ellipse as the error, one always throws.
\<close>

definition flatImage :: maskedImage where
  "flatImage = \<lparr> mx0 = 0, my0 = 0, mwidth = 50, mheight = 50,
                 imagePix = (\<lambda>x y. 2), variancePix = (\<lambda>x y. 1) \<rparr>"

definition roundSource :: source where
  "roundSource = \<lparr> shapeFlag = False, shape = \<lparr> axisA = 4, axisB = 1, axisTheta = 0 \<rparr>,
       flag = False, nProfile = 0, fluxField = (\<lambda>i. None), errField = (\<lambda>i. None) \<rparr>"

definition ratioProbe :: sincFluxFn where
  "ratioProbe mimage ellipse ratio = Inr (ratio, axisA (fst ellipse))"

definition failingFlux :: sincFluxFn where
  "failingFlux mimage ellipse ratio = Inl LengthErrorException"

section \<open>Properties\<close>

subsection \<open>Auxiliary facts\<close>

lemmas aperture_defs =
  CircularAperture_def initAperture_def zeroInnerTaper_def shrinkInnerTaper_def fitTapers_def

lemmas loop_defs =
  effectiveRadius_def effectiveRadiusLoop.simps tolerance_def maxIt_def dr_def
  CircApPolar_def diskQuad_def

lemma cos_three_quarter_pi: "cos (3 * pi / 4) = - (sqrt 2 / 2)"
proof -
  have "3 * pi / 4 = pi - pi / 4" by simp
  then show ?thesis by (simp only: cos_pi_minus cos_45)
qed

text \<open>
  Read over the reals, the throughput of any aperture lies between 0 and 1. (Where a
  taper width is zero the source divides by zero and the doubles can give NaN.)
\<close>

lemma ramp_range: "0 \<le> 0.5 * (1 + cos (z::real)) \<and> 0.5 * (1 + cos z) \<le> 1"
proof -
  have a: "- 1 \<le> cos z" by (rule cos_ge_minus_one)
  have b: "cos z \<le> 1" by (rule cos_le_one)
  from a have "0 \<le> 1 + cos z" by linarith
  moreover from b have "1 + cos z \<le> 2" by linarith
  ultimately show ?thesis by simp
qed

lemma throughput_range: "0 \<le> throughput a x y \<and> throughput a x y \<le> 1"
  using ramp_range[of "2 * pi * k1 a * (sqrt (x * x + y * y) - taperHi1 a)"]
        ramp_range[of "2 * pi * k2 a * (sqrt (x * x + y * y) - taperLo2 a)"]
  unfolding throughput_def Let_def
  by (simp only: split: if_split) simp

lemma CircularAperture_radii:
  "CircularAperture r1 r2 t = Inr ap \<Longrightarrow> 0 \<le> r1 \<and> r1 \<le> r2"
  by (auto simp: CircularAperture_def initAperture_def Let_def split: if_splits)

lemma sdiv_neg_2: "0 \<le> w \<Longrightarrow> (- w) sdiv 2 = - (w div (2::int))"
  by (simp add: signed_divide_int_def sgn_if)

lemma sdiv_pos_2: "0 \<le> w \<Longrightarrow> w sdiv 2 = w div (2::int)"
  by (simp add: signed_divide_int_def sgn_if)

text \<open>The effective-radius loop stops after at most \<open>maxIt\<close> passes.\<close>

lemma effectiveRadiusLoop_bound:
  "effectiveRadiusLoop integrate apEff t radIn err i = Inr (r, n) \<Longrightarrow> i \<le> maxIt \<Longrightarrow> n \<le> maxIt"
proof (induction integrate apEff t radIn err i rule: effectiveRadiusLoop.induct)
  case (1 integrate apEff taperwidth radIn err i)
  note unfold = effectiveRadiusLoop.simps[of integrate apEff taperwidth radIn err i]
  show ?case
  proof (cases "err > tolerance \<and> i < maxIt")
    case True
    with "1.prems" obtain p1 p2 where
      p: "CircApPolar radIn taperwidth = Inr p1" "CircApPolar (radIn + dr) taperwidth = Inr p2"
      by (auto simp: unfold split: sum.splits)
    show ?thesis
      using "1.IH"[OF True p refl refl refl refl] "1.prems" True p
      by (simp add: unfold Let_def)
  next
    case False
    with "1.prems" show ?thesis by (simp add: unfold)
  qed
qed

lemma effectiveRadius_half: "effectiveRadius diskQuad (1/2) 1 = Inr (1/2, 1)"
  by (simp add: loop_defs aperture_defs Let_def)

lemma effectiveRadius_five: "effectiveRadius diskQuad 5 1 = Inr (5, 1)"
  by (simp add: loop_defs aperture_defs Let_def)

lemma synthesize_half: "synthesize diskQuad midpointQuad2 0 (1/2) 1 = Inr halfKernel"
  by (simp add: synthesize_def effectiveRadius_half aperture_defs Let_def halfKernel_def)

text \<open>
  Rounding to \<open>float\<close>: zero and sign, the numbers that are floats already (an integer
  below \<open>2^24\<close> in magnitude times a power of two not below \<open>2^-149\<close>), and
  idempotence.
\<close>

lemma toFloat_zero: "toFloat 0 = 0"
  by (simp add: toFloat_def)

lemma float_exponent_minus: "float_exponent (- x) = float_exponent x"
  by (simp add: float_exponent_def)

lemma toFloat_minus: "toFloat (- x) = - toFloat x"
  by (simp add: toFloat_def float_ulp_def float_exponent_minus sgn_minus)

lemma round_half_even_of_int: "round_half_even (real_of_int n) = n"
  by (simp add: round_half_even_def)

lemma round_half_even_nonneg: "0 \<le> q \<Longrightarrow> 0 \<le> round_half_even q"
  by (simp add: round_half_even_def)

lemma round_half_even_le: "q \<le> real_of_int b \<Longrightarrow> round_half_even q \<le> b"
proof -
  assume q: "q \<le> real_of_int b"
  then have f: "\<lfloor>q\<rfloor> \<le> b" by (simp add: floor_le_iff) 
  show ?thesis
  proof (cases "q - real_of_int \<lfloor>q\<rfloor> < 1/2")
    case True
    with f show ?thesis by (simp add: round_half_even_def)
  next
    case False
    then have "real_of_int \<lfloor>q\<rfloor> < q" by linarith
    with q have "real_of_int \<lfloor>q\<rfloor> < real_of_int b" by linarith
    then have "\<lfloor>q\<rfloor> + 1 \<le> b" by linarith
    with f show ?thesis by (simp add: round_half_even_def)
  qed
qed

lemma pow2_pos: "0 < power_int (2::real) k"
  by simp

lemma log2_bracket:
  assumes "x \<noteq> 0"
  shows "power_int 2 \<lfloor>log 2 \<bar>x\<bar>\<rfloor> \<le> \<bar>x\<bar> \<and> \<bar>x\<bar> < power_int 2 (\<lfloor>log 2 \<bar>x\<bar>\<rfloor> + 1)"
proof -
  from assms have p: "0 < \<bar>x\<bar>" by simp
  have "\<lfloor>log 2 \<bar>x\<bar>\<rfloor> = \<lfloor>log 2 \<bar>x\<bar>\<rfloor>" ..
  then have "2 powr real_of_int \<lfloor>log 2 \<bar>x\<bar>\<rfloor> \<le> \<bar>x\<bar> \<and> \<bar>x\<bar> < 2 powr (real_of_int \<lfloor>log 2 \<bar>x\<bar>\<rfloor> + 1)"
    using floor_log_eq_powr_iff[OF p, of 2 "\<lfloor>log 2 \<bar>x\<bar>\<rfloor>"] by simp
  moreover have "real_of_int \<lfloor>log 2 \<bar>x\<bar>\<rfloor> + 1 = real_of_int (\<lfloor>log 2 \<bar>x\<bar>\<rfloor> + 1)" by simp
  ultimately show ?thesis
    by (simp only: powr_real_of_int'[of 2, simplified]) 
qed

lemma log2_floor_eq:
  assumes "power_int 2 e \<le> \<bar>x\<bar>" "\<bar>x\<bar> < power_int 2 (e + 1)"
  shows "\<lfloor>log 2 \<bar>x\<bar>\<rfloor> = e"
proof -
  have p: "0 < \<bar>x\<bar>" using assms(1) pow2_pos[of e] by linarith
  have a: "2 powr real_of_int e \<le> \<bar>x\<bar>" using assms(1) by (simp add: powr_real_of_int')
  have "real_of_int e + 1 = real_of_int (e + 1)" by simp
  then have b: "\<bar>x\<bar> < 2 powr (real_of_int e + 1)" using assms(2) by (simp only: powr_real_of_int'[of 2, simplified])
  from a b show ?thesis using floor_log_eq_powr_iff[OF p, of 2 e] by simp
qed

lemma toFloat_dyadic:
  assumes m: "\<bar>m\<bar> < 2 ^ 24" and k: "- 149 \<le> k"
  shows "toFloat (real_of_int m * power_int 2 k) = real_of_int m * power_int 2 k"
proof (cases "m = 0")
  case True
  then show ?thesis by (simp add: toFloat_def)
next
  case False
  define x where "x = real_of_int m * power_int 2 k"
  have x0: "x \<noteq> 0" using False by (simp add: x_def)
  have ax: "\<bar>x\<bar> = real_of_int \<bar>m\<bar> * power_int 2 k" by (simp add: x_def abs_mult)
  define E where "E = \<lfloor>log 2 \<bar>x\<bar>\<rfloor>"
  have "real_of_int \<bar>m\<bar> < 2 ^ 24" using m by (metis of_int_less_iff of_int_numeral of_int_power)
  then have "\<bar>x\<bar> < 2 ^ 24 * power_int 2 k" unfolding ax by (simp add: mult_strict_right_mono)
  also have "\<dots> = power_int (2::real) (k + 24)" by (simp add: power_int_add)
  finally have up: "\<bar>x\<bar> < power_int 2 (k + 24)" .
  from log2_bracket[OF x0] have lo: "power_int 2 E \<le> \<bar>x\<bar>" by (simp add: E_def)
  have Elt: "E < k + 24"
  proof (rule ccontr)
    assume "\<not> E < k + 24"
    then have "k + 24 \<le> E" by simp
    then have "power_int (2::real) (k + 24) \<le> power_int 2 E" by (intro power_int_increasing) auto
    with lo up show False by linarith
  qed
  define e where "e = float_exponent x"
  have e_le: "e - 23 \<le> k" using Elt k by (simp add: e_def float_exponent_def E_def)
  define j where "j = nat (k - (e - 23))"
  have kj: "k = (e - 23) + int j" using e_le by (simp add: j_def)
  have u: "float_ulp x = power_int 2 (e - 23)" by (simp add: float_ulp_def e_def)
  have pk: "power_int (2::real) k = power_int 2 (e - 23) * 2 ^ j"
    by (subst kj) (simp add: power_int_add)
  have q: "\<bar>x\<bar> / float_ulp x = real_of_int (\<bar>m\<bar> * 2 ^ j)"
    unfolding ax u pk by simp
  have r: "round_half_even (\<bar>x\<bar> / float_ulp x) = \<bar>m\<bar> * 2 ^ j"
    unfolding q by (rule round_half_even_of_int)
  have "toFloat x = sgn x * (real_of_int (\<bar>m\<bar> * 2 ^ j) * power_int 2 (e - 23))"
    using x0 by (simp add: toFloat_def r[unfolded u] u)
  also have "\<dots> = sgn x * \<bar>x\<bar>" unfolding ax pk by simp
  also have "\<dots> = x" by (simp add: sgn_mult_abs)
  finally show ?thesis by (simp add: x_def)
qed

lemma toFloat_form:
  "\<exists>m k. \<bar>m\<bar> < 2 ^ 24 \<and> - 149 \<le> k \<and> toFloat x = real_of_int m * power_int 2 k"
proof (cases "x = 0")
  case True
  then show ?thesis by (intro exI[of _ 0] exI[of _ 0]) (simp add: toFloat_def)
next
  case False
  define E where "E = \<lfloor>log 2 \<bar>x\<bar>\<rfloor>"
  define e where "e = float_exponent x"
  define n where "n = round_half_even (\<bar>x\<bar> / float_ulp x)"
  have u: "float_ulp x = power_int 2 (e - 23)" by (simp add: float_ulp_def e_def)
  have eE: "E \<le> e" "- 126 \<le> e" by (simp_all add: e_def float_exponent_def E_def)
  from log2_bracket[OF False] have "\<bar>x\<bar> < power_int 2 (E + 1)" by (simp add: E_def)
  also have "\<dots> \<le> power_int 2 (e + 1)" using eE by (intro power_int_increasing) auto
  also have "\<dots> = power_int 2 ((e - 23) + 24)"
    by (rule arg_cong[where f = "power_int 2"]) simp
  also have "\<dots> = power_int 2 (e - 23) * power_int 2 24"
    by (rule power_int_add) simp
  also have "\<dots> = 2 ^ 24 * power_int 2 (e - 23)" by simp
  finally have "\<bar>x\<bar> / float_ulp x < 2 ^ 24" unfolding u by (simp add: divide_less_eq)
  then have "\<bar>x\<bar> / float_ulp x \<le> real_of_int (2 ^ 24)" by simp
  then have n_le: "n \<le> 2 ^ 24" unfolding n_def by (rule round_half_even_le)
  have "0 \<le> \<bar>x\<bar> / float_ulp x" unfolding u by simp
  then have n_ge: "0 \<le> n" unfolding n_def by (rule round_half_even_nonneg)
  have tf: "toFloat x = sgn x * (real_of_int n * power_int 2 (e - 23))"
    using False by (simp add: toFloat_def n_def u)
  define s :: int where "s = (if 0 < x then 1 else - 1)"
  have sx: "sgn x = real_of_int s" using False by (simp add: s_def sgn_if)
  show ?thesis
  proof (cases "n = 2 ^ 24")
    case True
    have "toFloat x = real_of_int (s * 2 ^ 23) * power_int 2 (e - 22)"
    proof -
      have "power_int (2::real) (e - 22) = power_int 2 ((e - 23) + 1)"
        by (rule arg_cong[where f = "power_int 2"]) simp
      also have "\<dots> = power_int 2 (e - 23) * power_int 2 1"
        by (rule power_int_add) simp
      finally have "power_int (2::real) (e - 22) = power_int 2 (e - 23) * 2" by simp
      then show ?thesis unfolding tf sx True by simp
    qed
    moreover have "\<bar>s * 2 ^ 23\<bar> < (2::int) ^ 24" by (simp add: s_def)
    moreover have "- 149 \<le> e - 22" using eE by simp
    ultimately show ?thesis by blast
  next
    case False
    with n_le n_ge have "\<bar>s * n\<bar> < 2 ^ 24" by (simp add: s_def abs_mult)
    moreover have "toFloat x = real_of_int (s * n) * power_int 2 (e - 23)"
      unfolding tf sx by simp
    moreover have "- 149 \<le> e - 23" using eE by simp
    ultimately show ?thesis by blast
  qed
qed

lemma toFloat_idem: "toFloat (toFloat x) = toFloat x"
proof -
  from toFloat_form[of x] obtain m k where
    "\<bar>m\<bar> < 2 ^ 24" "- 149 \<le> k" "toFloat x = real_of_int m * power_int 2 k" by blast
  then show ?thesis using toFloat_dyadic[of m k] by simp
qed

lemma float_exponent_eq:
  assumes "power_int 2 e \<le> \<bar>x\<bar>" "\<bar>x\<bar> < power_int 2 (e + 1)" "- 126 \<le> e"
  shows "float_exponent x = e"
  using log2_floor_eq[OF assms(1,2)] assms(3) by (simp add: float_exponent_def)

lemma toFloat_half: "toFloat (1/2) = 1/2"
  using toFloat_dyadic[of 1 "- 1"] by (simp add: power_int_minus)

lemma toFloat_one: "toFloat 1 = 1"
  using toFloat_dyadic[of 1 0] by simp

lemma toFloat_four: "toFloat 4 = 4"
  using toFloat_dyadic[of 4 0] by simp

lemma toFloat_a: "toFloat (1/2 - 3/2^25) = 1/2 - 3/2^25"
  using toFloat_dyadic[of 16777213 "- 25"] by (simp add: power_int_minus)

lemma toFloat_b: "toFloat (1/2 + 1/2^24) = 1/2 + 1/2^24"
  using toFloat_dyadic[of 8388609 "- 24"] by (simp add: power_int_minus)

lemma toFloat_da: "toFloat (3/2^25) = 3/2^25"
  using toFloat_dyadic[of 3 "- 25"] by (simp add: power_int_minus)

lemma toFloat_db: "toFloat (1/2^24) = 1/2^24"
  using toFloat_dyadic[of 1 "- 24"] by (simp add: power_int_minus)

lemma toFloat_narrow: "toFloat (4 + 3/2^24) = 4"
proof -
  have e: "float_exponent (4 + 3/2^24) = 2"
    by (rule float_exponent_eq) simp_all
  then have e': "float_exponent (67108867 / 16777216) = 2" by simp
  show ?thesis
    by (simp add: toFloat_def float_ulp_def e' round_half_even_def power_int_minus)
qed

text \<open>The key order and the cache.\<close>

lemma fuzzyCompare_irrefl: "\<not> fuzzyCompare k k"
  by (simp add: fuzzyCompare_def epsilon_def toFloat_zero)

lemma fuzzyCompare_equiv:
  "(\<not> fuzzyCompare x y \<and> \<not> fuzzyCompare y x) = (\<bar>toFloat (x - y)\<bar> < epsilon)"
proof -
  have "toFloat (y - x) = - toFloat (x - y)"
    using toFloat_minus[of "x - y"] by simp
  then show ?thesis by (auto simp: fuzzyCompare_def epsilon_def)
qed

lemma mapFind_mapAssign: "\<not> cmp k k \<Longrightarrow> mapFind cmp (mapAssign cmp k v m) k = Some v"
  by (induction m) auto

lemma cacheFind_cacheStore: "cacheFind (cacheStore c i r img) i r = Some img"
  by (simp add: cacheFind_def cacheStore_def Let_def mapFind_mapAssign fuzzyCompare_irrefl)

lemma cacheFind_toFloat: "cacheFind c (toFloat i) (toFloat r) = cacheFind c i r"
  by (simp only: cacheFind_def toFloat_idem)

lemma cacheStore_toFloat: "cacheStore c (toFloat i) (toFloat r) img = cacheStore c i r img"
  by (simp only: cacheStore_def toFloat_idem)

lemma mapFind_Some_near:
  "mapFind fuzzyCompare m k = Some v \<Longrightarrow> \<exists>a. (a, v) \<in> set m \<and> \<bar>toFloat (a - k)\<bar> < epsilon"
proof (induction m)
  case Nil
  then show ?case by simp
next
  case (Cons e m)
  obtain a w where e: "e = (a, w)" by (cases e)
  show ?case
  proof (cases "fuzzyCompare a k")
    case True
    with Cons e show ?thesis by auto
  next
    case False
    with Cons.prems e have "\<not> fuzzyCompare k a" "w = v" by (auto split: if_splits)
    with False have "\<bar>toFloat (a - k)\<bar> < epsilon" using fuzzyCompare_equiv[of a k] by simp
    with e \<open>w = v\<close> show ?thesis by auto
  qed
qed

lemma cacheFind_Some_near:
  assumes "cacheFind c i r = Some img"
  shows "\<exists>i' rm r'. (i', rm) \<in> set c \<and> (r', img) \<in> set rm \<and>
           \<bar>toFloat (i' - toFloat i)\<bar> < epsilon \<and> \<bar>toFloat (r' - toFloat r)\<bar> < epsilon"
proof -
  from assms obtain rm where
    rm: "mapFind fuzzyCompare c (toFloat i) = Some rm"
        "mapFind fuzzyCompare rm (toFloat r) = Some img"
    by (auto simp: cacheFind_def split: option.splits)
  from mapFind_Some_near[OF rm(1)] mapFind_Some_near[OF rm(2)] show ?thesis by blast
qed

lemma calculateImage_hit:
  "cacheFind c i r = Some img \<Longrightarrow> calculateImage q1 q2 c i r t = Inr (img, c)"
  by (simp add: calculateImage_def)

lemma calculateImage_miss:
  "cacheFind c i r = None \<Longrightarrow> synthesize q1 q2 i r t = Inr img \<Longrightarrow>
   calculateImage q1 q2 c i r t = Inr (img, cacheStore c i r img)"
  by (simp add: calculateImage_def)

lemmas float_values =
  toFloat_zero toFloat_one toFloat_half toFloat_four toFloat_a toFloat_b toFloat_da toFloat_db

lemma toFloat_a': "toFloat (16777213 / 33554432) = 16777213 / 33554432"
  using toFloat_a by simp

lemma toFloat_b': "toFloat (8388609 / 16777216) = 8388609 / 16777216"
  using toFloat_b by simp

lemma toFloat_da': "toFloat (3 / 33554432) = 3 / 33554432"
  using toFloat_da by simp

lemma toFloat_db': "toFloat (1 / 16777216) = 1 / 16777216"
  using toFloat_db by simp

lemmas float_simps =
  toFloat_zero toFloat_one toFloat_half toFloat_four toFloat_a' toFloat_b' toFloat_da'
  toFloat_db' toFloat_minus

text \<open>
  A request that is not a float is converted first: with the key 4 stored, the request
  \<open>4 + 3/2^24\<close>, which is 1.5 epsilon away, becomes the float 4 and is served from the
  cache.
\<close>

lemma getImage_narrowed_request_hits:
  "getImage diskQuad midpointQuad2 [(0, [(4, unitKernel)])] 0 (4 + 3/2^24) 1 =
     Inr (unitKernel, [(0, [(4, unitKernel)])])"
  by (simp add: getImage_def calculateImage_def cacheFind_def fuzzyCompare_def float_simps
      toFloat_narrow[simplified] epsilon_def)

text \<open>
  The accumulation of \<open>operator()\<close> over the pixels of a footprint, for a functor whose
  reference is alive, as it is while the constructor runs.
\<close>

lemma applyPixels_live_sums:
  assumes "wimage g = Live w"
  shows "\<exists>h. applyPixels m g ps = Inr h \<and> wimage h = Live w \<and>
     sumFlux h = sumFlux g + (\<Sum>p\<leftarrow>ps. pix w (fst p - fx0 g) (snd p - fy0 g)
                                  * imagePix m (fst p - mx0 m) (snd p - my0 m)) \<and>
     sumVar h = sumVar g + (\<Sum>p\<leftarrow>ps. pix w (fst p - fx0 g) (snd p - fy0 g)
                                  * pix w (fst p - fx0 g) (snd p - fy0 g)
                                  * variancePix m (fst p - mx0 m) (snd p - my0 m))"
  using assms
proof (induction ps arbitrary: g)
  case Nil
  then show ?case by simp
next
  case (Cons p ps)
  define g' where "g' = g\<lparr>sumFlux := sumFlux g + pix w (fst p - fx0 g) (snd p - fy0 g)
                              * imagePix m (fst p - mx0 m) (snd p - my0 m),
                           sumVar := sumVar g + pix w (fst p - fx0 g) (snd p - fy0 g)
                              * pix w (fst p - fx0 g) (snd p - fy0 g)
                              * variancePix m (fst p - mx0 m) (snd p - my0 m)\<rparr>"
  have step: "pixelStep m g p = Inr g'"
    using Cons.prems by (simp add: pixelStep_def Let_def g'_def)
  have live: "wimage g' = Live w" using Cons.prems by (simp add: g'_def)
  from Cons.IH[OF live] obtain h where h: "applyPixels m g' ps = Inr h" "wimage h = Live w"
    "sumFlux h = sumFlux g' + (\<Sum>p\<leftarrow>ps. pix w (fst p - fx0 g') (snd p - fy0 g')
                                  * imagePix m (fst p - mx0 m) (snd p - my0 m))"
    "sumVar h = sumVar g' + (\<Sum>p\<leftarrow>ps. pix w (fst p - fx0 g') (snd p - fy0 g')
                                  * pix w (fst p - fx0 g') (snd p - fy0 g')
                                  * variancePix m (fst p - mx0 m) (snd p - my0 m))"
    by blast
  have "applyPixels m g (p # ps) = Inr h" by (simp add: step h(1))
  moreover have "fx0 g' = fx0 g" "fy0 g' = fy0 g" by (simp_all add: g'_def)
  ultimately show ?case using h(2,3,4) by (simp add: g'_def)
qed

lemma applyFunctor_live_sums:
  assumes "applyFunctor m (constructing w) box = Inr h"
  shows "sumFlux h = (\<Sum>(x, y)\<leftarrow>footprintPixels box.
                    pix w (x - bx0 box) (y - by0 box) * imagePix m (x - mx0 m) (y - my0 m)) \<and>
         sumVar h = (\<Sum>(x, y)\<leftarrow>footprintPixels box.
                    pix w (x - bx0 box) (y - by0 box) * pix w (x - bx0 box) (y - by0 box)
                      * variancePix m (x - mx0 m) (y - my0 m))"
proof -
  let ?g = "(constructing w)\<lparr>sumFlux := 0, sumVar := 0, fx0 := bx0 box, fy0 := by0 box\<rparr>"
  from assms have a: "applyPixels m ?g (footprintPixels box) = Inr h"
    by (auto simp: applyFunctor_def reset_def Let_def constructing_def split: if_splits)
  have "wimage ?g = Live w" by (simp add: constructing_def)
  from applyPixels_live_sums[OF this, of m "footprintPixels box"] a show ?thesis
    by (simp add: case_prod_unfold)
qed

lemma measureFlux_undefined: "measureFlux mimage cimage box = Inl UndefinedBehaviour"
  by (simp add: measureFlux_def applyFunctor_def reset_def FootprintWeightFlux_def Let_def)

lemmas measure_defs =
  doMeasure_def defaultTaperwidth_def getImage_def calculateImage_def cacheFind_def
  fuzzyCompare_def epsilon_def float_simps
  clipKernel_def shiftOrigin_def cropImage_def flatImage_def unitKernel_def clipBounds_def
  Let_def

text \<open>The profile loop, when every call of the flux routine returns.\<close>

lemma shift_update_at:
  "(if Suc i \<le> k \<and> k < Suc (i + n) then Some (h (Suc (k - (i + 1))))
    else (if k = i then Some (h 0) else g k))
   = (if i \<le> k \<and> k < Suc (i + n) then Some (h (k - i)) else g k)"
proof (cases "Suc i \<le> k")
  case True
  then have "k - i = Suc (k - (i + 1))" by arith
  with True show ?thesis by simp
next
  case False
  show ?thesis
  proof (cases "k = i")
    case True
    then show ?thesis by simp
  next
    case False
    with \<open>\<not> Suc i \<le> k\<close> have "\<not> i \<le> k" by arith
    with \<open>\<not> Suc i \<le> k\<close> False show ?thesis by simp
  qed
qed

lemma profileLoop_all:
  assumes "\<forall>j<length rs. calc mimage (scale shp (dmult fac (Finite (rs ! j))), center)
             (ddiv (if j = 0 then orad
                    else axisA (scale shp (dmult fac (Finite (rs ! (j - 1))))))
                   (axisA (scale shp (dmult fac (Finite (rs ! j))))))
             = Inr (res j)"
  shows "profileLoop calc mimage shp center fac rs i orad src =
           (src\<lparr>fluxField := (\<lambda>k. if i \<le> k \<and> k < i + length rs
                                   then Some (fst (res (k - i))) else fluxField src k),
                errField := (\<lambda>k. if i \<le> k \<and> k < i + length rs
                                  then Some (snd (res (k - i))) else errField src k)\<rparr>, None)"
  using assms
proof (induction rs arbitrary: i orad src res)
  case Nil
  have e: "(\<lambda>k. if i \<le> k \<and> k < i then Some (fst (res (k - i))) else fluxField src k)
             = fluxField src"
    "(\<lambda>k. if i \<le> k \<and> k < i then Some (snd (res (k - i))) else errField src k)
             = errField src"
    by (auto simp: fun_eq_iff)
  show ?case by (simp add: e)
next
  case (Cons r rs)
  let ?out = "\<lambda>x. scale shp (dmult fac (Finite x))"
  have first: "calc mimage (?out r, center) (ddiv orad (axisA (?out r))) = Inr (res 0)"
    using Cons.prems[rule_format, of 0] by simp
  have rest: "\<forall>j<length rs. calc mimage (?out (rs ! j), center)
             (ddiv (if j = 0 then axisA (?out r) else axisA (?out (rs ! (j - 1))))
                   (axisA (?out (rs ! j))))
             = Inr (res (Suc j))"
  proof (intro allI impI)
    fix j assume j: "j < length rs"
    show "calc mimage (?out (rs ! j), center)
             (ddiv (if j = 0 then axisA (?out r) else axisA (?out (rs ! (j - 1))))
                   (axisA (?out (rs ! j))))
             = Inr (res (Suc j))"
      using Cons.prems[rule_format, of "Suc j"] j by (cases j) simp_all
  qed
  note IH = Cons.IH[where res = "\<lambda>j. res (Suc j)" and orad = "axisA (?out r)", OF rest]
  let ?src1 = "src\<lparr>fluxField := (fluxField src)(i := Some (fst (res 0))),
                      errField := (errField src)(i := Some (snd (res 0)))\<rparr>"
  have f1: "\<And>k. fluxField ?src1 k = (if k = i then Some (fst (res 0)) else fluxField src k)"
    and e1: "\<And>k. errField ?src1 k = (if k = i then Some (snd (res 0)) else errField src k)"
    by simp_all
  have F: "\<And>k. (if Suc i \<le> k \<and> k < Suc (i + length rs)
                 then Some (fst (res (Suc (k - (i + 1))))) else fluxField ?src1 k)
              = (if i \<le> k \<and> k < Suc (i + length rs)
                 then Some (fst (res (k - i))) else fluxField src k)"
    unfolding f1 by (rule shift_update_at[where h = "\<lambda>j. fst (res j)"])
  have E: "\<And>k. (if Suc i \<le> k \<and> k < Suc (i + length rs)
                 then Some (snd (res (Suc (k - (i + 1))))) else errField ?src1 k)
              = (if i \<le> k \<and> k < Suc (i + length rs)
                 then Some (snd (res (k - i))) else errField src k)"
    unfolding e1 by (rule shift_update_at[where h = "\<lambda>j. snd (res j)"])
  show ?case
    apply (simp only: profileLoop.simps Let_def first sum.case IH)
    apply (simp add: F E)
    done
qed

subsection \<open>The tapered aperture\<close>

text \<open>
  C3. When the gap between the radii is too small for both tapers and half the inner
  taper width still fits in the gap, the claim keeps the inner taper width and gives the
  rest of the gap to the outer one. The constructor tests \<open>_radius2 - _radius2\<close>, which
  is zero, so it takes the equal-split branch whenever the inner taper width is
  positive. For radii 1/8 and 9/8 and taper width 2 the inner width is first shrunk to
  1/4; the gap 1 is below (1/4 + 2)/2 and half of 1/4 fits in it, so the claim asks for
  the widths 1/4 and 3/4. The constructor yields 1/2 and 1/2.
\<close>

theorem CircularAperture_equal_split_taken:
  "\<exists>ap. CircularAperture (1/8) (9/8) 2 = Inr ap \<and>
        taperwidth1 ap = 1/2 \<and> taperwidth2 ap = 1/2 \<and>
        taperwidth1 (shrinkInnerTaper (zeroInnerTaper (initAperture (1/8) (9/8) 2))) = 1/4"
  by (simp add: aperture_defs Let_def)

text \<open>
  C4. The claim gives the throughput 0 at the origin whenever the inner radius is
  positive. For the same aperture the equal split puts the low edge of the inner taper
  at \<open>1/8 - 1/4 < 0\<close>, so the origin lies on the inner ramp and the throughput there is
  \<open>(1 - sqrt 2 / 2) / 2\<close>, which is positive.
\<close>

theorem throughput_origin_positive:
  "\<exists>ap. CircularAperture (1/8) (9/8) 2 = Inr ap \<and> radius1 ap > 0 \<and>
        throughput ap 0 0 = (1 - sqrt 2 / 2) / 2 \<and> throughput ap 0 0 > 0"
proof -
  have "sqrt 2 < sqrt 4" by (simp only: real_sqrt_less_iff)
  then have "(1 - sqrt 2 / 2) / 2 > 0" by simp
  then show ?thesis
    by (simp add: aperture_defs Let_def throughput_def cos_three_quarter_pi)
qed

subsection \<open>Kernel synthesis\<close>

text \<open>
  C5. The kernel of the direct-quadrature synthesis is the kernel of the variant without
  the effective-radius loop: the loop's result is not used, and the loop matters only
  when one of its \<open>CircApPolar\<close> constructors throws.
\<close>

theorem synthesize_discards_effectiveRadius:
  "synthesize integrate integrate2d innerRadius radius taperwidth =
     (case effectiveRadius integrate radius taperwidth of
        Inl e \<Rightarrow> Inl e
      | Inr radIn \<Rightarrow> synthesize_noNewton integrate2d innerRadius radius taperwidth)"
  by (simp add: synthesize_def synthesize_noNewton_def split: sum.splits prod.splits)

text \<open>
  C6, as stated: the window has side \<open>2 (r + t + buffer) + 1\<close>. For radius 5 and taper
  width 1 that is 33 with the buffer 10 of the source; the synthesized kernel is 31
  pixels wide.
\<close>

theorem synthesize_window_counterexample:
  "map_sum id iwidth (synthesize diskQuad midpointQuad2 0 5 1) = Inr 31 \<and>
   (31::int) \<noteq> 2 * (5 + 1 + 10) + 1"
  by (simp add: synthesize_def effectiveRadius_five aperture_defs Let_def coeffWindow_def
      truncInt_def)

text \<open>
  C6, amended: the window is a square of side \<open>trunc (2 (r + 10)) + 1\<close>, whatever the
  taper width; its corner is at minus half the side (rounded down), so it holds the
  offset 0 at its middle. The coefficient of every offset \<open>(iX, iY)\<close> of the window is
  the two-dimensional quadrature, with tolerance \<open>1e-8\<close>, of the sinc aperture over the
  square of half-width \<open>r + t\<close>, less the area of that square, when the offset is nearer
  to the centre than half the side (rounded down), and 0 otherwise.
\<close>

theorem synthesize_window:
  assumes "synthesize integrate integrate2d innerRadius radius taperwidth = Inr img"
  shows "iwidth img = truncInt (2 * (radius + 10)) + 1 \<and>
         iheight img = truncInt (2 * (radius + 10)) + 1 \<and>
         ix0 img = - (iwidth img div 2) \<and>
         iy0 img = - (iheight img div 2) \<and>
         (\<exists>ap. CircularAperture innerRadius radius taperwidth = Inr ap \<and>
            (\<forall>iX iY. pix img (iX - ix0 img) (iY - iy0 img) =
               (if sqrt (real_of_int iX * real_of_int iX + real_of_int iY * real_of_int iY)
                     < real_of_int (iwidth img div 2)
                then integrate2d (SincAperture ap iX iY)
                       (- (radius + taperwidth)) (radius + taperwidth)
                       (- (radius + taperwidth)) (radius + taperwidth) (1 / 10 ^ 8)
                     - (2 * (radius + taperwidth)) * (2 * (radius + taperwidth))
                else 0)))"
proof -
  from assms obtain ap where ap: "CircularAperture innerRadius radius taperwidth = Inr ap"
    and img: "img = coeffWindow integrate2d ap radius taperwidth"
    by (auto simp: synthesize_def split: sum.splits prod.splits)
  from CircularAperture_radii[OF ap] have r: "0 \<le> radius" by simp
  then have w: "0 \<le> truncInt (2 * (radius + 10)) + 1" by (simp add: truncInt_def)
  show ?thesis
    using ap r w
    by (simp add: img coeffWindow_def Let_def coefficient_def sdiv_neg_2 sdiv_pos_2)
qed

theorem synthesize_window_witness:
  "synthesize diskQuad midpointQuad2 0 (1/2) 1 = Inr halfKernel \<and>
   iwidth halfKernel = 22 \<and> iheight halfKernel = 22 \<and>
   ix0 halfKernel = - 11 \<and> iy0 halfKernel = - 11"
  using synthesize_window[OF synthesize_half] synthesize_half
  by (simp add: truncInt_def)

subsection \<open>The coefficient cache\<close>

text \<open>
  C7, as stated: two lookups whose radii differ by more than epsilon use distinct keys.
  After a first lookup of the radii \<open>(0, 1/2)\<close> in the empty cache, the lookups of
  \<open>(0, 1/2 - 3/2^25)\<close> and of \<open>(0, 1/2 + 1/2^24)\<close>, all of them floats, whose outer
  radii differ by \<open>1.25\<close> epsilon, both match the stored key \<open>1/2\<close>: both return the
  stored kernel and neither synthesizes.
\<close>

theorem calculateImage_distant_lookups_share_key:
  "\<bar>(1/2 - 3/2^25) - (1/2 + 1/2^24)\<bar> > epsilon \<and>
   calculateImage diskQuad midpointQuad2 [] 0 (1/2) 1 =
     Inr (halfKernel, [(0, [(1/2, halfKernel)])]) \<and>
   calculateImage diskQuad midpointQuad2 [(0, [(1/2, halfKernel)])] 0 (1/2 - 3/2^25) 1 =
     Inr (halfKernel, [(0, [(1/2, halfKernel)])]) \<and>
   calculateImage diskQuad midpointQuad2 [(0, [(1/2, halfKernel)])] 0 (1/2 + 1/2^24) 1 =
     Inr (halfKernel, [(0, [(1/2, halfKernel)])])"
proof -
  have first: "calculateImage diskQuad midpointQuad2 [] 0 (1/2) 1 =
      Inr (halfKernel, [(0, [(1/2, halfKernel)])])"
    by (simp add: calculateImage_def cacheFind_def cacheStore_def synthesize_half float_simps)
  have a: "cacheFind [(0, [(1/2, halfKernel)])] 0 (1/2 - 3/2^25) = Some halfKernel"
    by (simp add: cacheFind_def fuzzyCompare_def float_simps epsilon_def)
  have b: "cacheFind [(0, [(1/2, halfKernel)])] 0 (1/2 + 1/2^24) = Some halfKernel"
    by (simp add: cacheFind_def fuzzyCompare_def float_simps epsilon_def)
  have "\<bar>(1/2 - 3/2^25) - (1/2 + 1/2^24)\<bar> > epsilon" by (simp add: epsilon_def)
  with first
    calculateImage_hit[OF a, of diskQuad midpointQuad2 1]
    calculateImage_hit[OF b, of diskQuad midpointQuad2 1]
  show ?thesis by simp
qed

text \<open>
  C7, amended: the requested radii are converted to \<open>float\<close>, and the maps treat two
  float keys as equal exactly when their float difference is smaller than epsilon in
  magnitude. A lookup with radii in the range of \<open>float\<close> compares the converted radii
  with the stored keys: it returns a stored kernel only if a stored key has both radii
  equal in that sense to the converted ones, and leaves the cache as it was; otherwise
  it synthesizes the kernel for the converted radii and stores it, so that the same
  request then finds it. A request whose converted radii differ in that sense in some
  radius from every stored key always synthesizes. Two lookups more than epsilon apart
  can share one stored key.
\<close>

theorem getImage_key_matching:
  assumes "getImage integrate integrate2d c i r t = Inr (img, c')"
    and "\<bar>i\<bar> < 2 ^ 127" and "\<bar>r\<bar> < 2 ^ 127"
  shows "((\<not> fuzzyCompare x y \<and> \<not> fuzzyCompare y x) = (\<bar>toFloat (x - y)\<bar> < epsilon)) \<and>
         ((c' = c \<and> (\<exists>i' rm r'. (i', rm) \<in> set c \<and> (r', img) \<in> set rm \<and>
                        \<bar>toFloat (i' - toFloat i)\<bar> < epsilon \<and>
                        \<bar>toFloat (r' - toFloat r)\<bar> < epsilon))
          \<or> (synthesize integrate integrate2d (toFloat i) (toFloat r) t = Inr img \<and>
              c' = cacheStore c i r img \<and> cacheFind c' i r = Some img)) \<and>
         ((\<forall>(i', rm) \<in> set c. \<forall>(r', v) \<in> set rm.
              \<bar>toFloat (i' - toFloat i)\<bar> \<ge> epsilon \<or> \<bar>toFloat (r' - toFloat r)\<bar> \<ge> epsilon)
          \<longrightarrow> synthesize integrate integrate2d (toFloat i) (toFloat r) t = Inr img \<and>
              c' = cacheStore c i r img)"
proof (cases "cacheFind c i r")
  case None
  with assms(1) have
    "synthesize integrate integrate2d (toFloat i) (toFloat r) t = Inr img \<and>
     c' = cacheStore c i r img"
    by (auto simp: getImage_def calculateImage_def cacheFind_toFloat cacheStore_toFloat
        split: sum.splits)
  then show ?thesis by (simp add: fuzzyCompare_equiv cacheFind_cacheStore)
next
  case (Some k)
  with assms(1) have eq: "img = k" "c' = c"
    by (auto simp: getImage_def calculateImage_def cacheFind_toFloat)
  from cacheFind_Some_near[OF Some] eq
  have near: "\<exists>i' rm r'. (i', rm) \<in> set c \<and> (r', img) \<in> set rm \<and>
                \<bar>toFloat (i' - toFloat i)\<bar> < epsilon \<and> \<bar>toFloat (r' - toFloat r)\<bar> < epsilon"
    by simp
  then have far: "\<not> (\<forall>(i', rm) \<in> set c. \<forall>(r', v) \<in> set rm.
                        \<bar>toFloat (i' - toFloat i)\<bar> \<ge> epsilon \<or>
                        \<bar>toFloat (r' - toFloat r)\<bar> \<ge> epsilon)"
    by fastforce
  show ?thesis
  proof (intro conjI)
    show "(\<not> fuzzyCompare x y \<and> \<not> fuzzyCompare y x) = (\<bar>toFloat (x - y)\<bar> < epsilon)"
      by (rule fuzzyCompare_equiv)
    show "(c' = c \<and> (\<exists>i' rm r'. (i', rm) \<in> set c \<and> (r', img) \<in> set rm \<and>
                        \<bar>toFloat (i' - toFloat i)\<bar> < epsilon \<and>
                        \<bar>toFloat (r' - toFloat r)\<bar> < epsilon))
          \<or> (synthesize integrate integrate2d (toFloat i) (toFloat r) t = Inr img \<and>
              c' = cacheStore c i r img \<and> cacheFind c' i r = Some img)"
      using near eq by blast
    show "(\<forall>(i', rm) \<in> set c. \<forall>(r', v) \<in> set rm.
              \<bar>toFloat (i' - toFloat i)\<bar> \<ge> epsilon \<or> \<bar>toFloat (r' - toFloat r)\<bar> \<ge> epsilon)
          \<longrightarrow> synthesize integrate integrate2d (toFloat i) (toFloat r) t = Inr img \<and>
              c' = cacheStore c i r img"
      using far by blast
  qed
qed

theorem getImage_key_matching_witness:
  "getImage diskQuad midpointQuad2 [(0, [(1, unitKernel)])] 0 (1/2) 1 =
     Inr (halfKernel, [(0, [(1/2, halfKernel), (1, unitKernel)])]) \<and>
   \<bar>0 :: real\<bar> < 2 ^ 127 \<and> \<bar>1/2 :: real\<bar> < 2 ^ 127 \<and>
   synthesize diskQuad midpointQuad2 (toFloat 0) (toFloat (1/2)) 1 = Inr halfKernel \<and>
   cacheFind [(0, [(1/2, halfKernel), (1, unitKernel)])] 0 (1/2) = Some halfKernel"
proof -
  have f: "cacheFind [(0, [(1, unitKernel)])] 0 (1/2) = None"
    by (simp add: cacheFind_def fuzzyCompare_def float_simps epsilon_def)
  have c: "getImage diskQuad midpointQuad2 [(0, [(1, unitKernel)])] 0 (1/2) 1 =
     Inr (halfKernel, [(0, [(1/2, halfKernel), (1, unitKernel)])])"
    by (simp add: getImage_def calculateImage_def f[unfolded cacheFind_def] cacheFind_def
        synthesize_half cacheStore_def fuzzyCompare_def float_simps epsilon_def)
  have b: "\<bar>0 :: real\<bar> < 2 ^ 127" "\<bar>1/2 :: real\<bar> < 2 ^ 127" by simp_all
  have far: "\<forall>(i', rm) \<in> set [(0::real, [(1::real, unitKernel)])]. \<forall>(r', v) \<in> set rm.
       \<bar>toFloat (i' - toFloat 0)\<bar> \<ge> epsilon \<or> \<bar>toFloat (r' - toFloat (1/2))\<bar> \<ge> epsilon"
    by (simp add: float_simps epsilon_def)
  from getImage_key_matching[OF c b] have
    "(\<forall>(i', rm) \<in> set [(0::real, [(1::real, unitKernel)])]. \<forall>(r', v) \<in> set rm.
         \<bar>toFloat (i' - toFloat 0)\<bar> \<ge> epsilon \<or> \<bar>toFloat (r' - toFloat (1/2))\<bar> \<ge> epsilon)
     \<longrightarrow> synthesize diskQuad midpointQuad2 (toFloat 0) (toFloat (1/2)) 1 = Inr halfKernel \<and>
         [(0, [(1/2, halfKernel), (1, unitKernel)])] =
           cacheStore [(0, [(1, unitKernel)])] 0 (1/2) halfKernel"
    by blast
  with far have s: "synthesize diskQuad midpointQuad2 (toFloat 0) (toFloat (1/2)) 1 = Inr halfKernel \<and>
      [(0, [(1/2, halfKernel), (1, unitKernel)])] =
        cacheStore [(0, [(1, unitKernel)])] 0 (1/2) halfKernel"
    by blast
  then have g: "cacheFind [(0, [(1/2, halfKernel), (1, unitKernel)])] 0 (1/2) = Some halfKernel"
    by (simp add: cacheFind_cacheStore)
  from c b s g show ?thesis by blast
qed

text \<open>
  C10. A request whose key is found in the cache gets the stored kernel whatever taper
  width it names. So after a request with taper width \<open>t1\<close> has returned a kernel, a
  request for the same radii with any taper width \<open>t2\<close> returns that same kernel and
  leaves the cache as it is; when the first request was a miss, that kernel is the one
  synthesized with \<open>t1\<close>, for the radii as \<open>getImage\<close> receives them.
\<close>

theorem getImage_hit_ignores_taperwidth:
  "(cacheFind c r1 r2 = Some img \<longrightarrow>
      getImage integrate integrate2d c r1 r2 taperwidth = Inr (img, c)) \<and>
   (getImage integrate integrate2d c0 r1 r2 t1 = Inr (img1, c1) \<longrightarrow>
      getImage integrate integrate2d c1 r1 r2 t2 = Inr (img1, c1) \<and>
      (cacheFind c0 r1 r2 = None \<longrightarrow>
         synthesize integrate integrate2d (toFloat r1) (toFloat r2) t1 = Inr img1))"
proof (intro conjI impI)
  assume "cacheFind c r1 r2 = Some img"
  then show "getImage integrate integrate2d c r1 r2 taperwidth = Inr (img, c)"
    by (simp add: getImage_def calculateImage_hit cacheFind_toFloat)
next
  assume g: "getImage integrate integrate2d c0 r1 r2 t1 = Inr (img1, c1)"
  have "cacheFind c1 r1 r2 = Some img1"
  proof (cases "cacheFind c0 r1 r2")
    case None
    with g have "c1 = cacheStore c0 r1 r2 img1"
      by (auto simp: getImage_def calculateImage_def cacheFind_toFloat cacheStore_toFloat
          split: sum.splits)
    then show ?thesis by (simp add: cacheFind_cacheStore)
  next
    case (Some k)
    with g show ?thesis by (auto simp: getImage_def calculateImage_def cacheFind_toFloat)
  qed
  then show "getImage integrate integrate2d c1 r1 r2 t2 = Inr (img1, c1)"
    by (simp add: getImage_def calculateImage_hit cacheFind_toFloat)
next
  assume g: "getImage integrate integrate2d c0 r1 r2 t1 = Inr (img1, c1)"
    and n: "cacheFind c0 r1 r2 = None"
  then show "synthesize integrate integrate2d (toFloat r1) (toFloat r2) t1 = Inr img1"
    by (auto simp: getImage_def calculateImage_def cacheFind_toFloat split: sum.splits)
qed

theorem getImage_hit_ignores_taperwidth_witness:
  "cacheFind [(0, [(1/2, halfKernel)])] 0 (1/2) = Some halfKernel \<and>
   getImage diskQuad midpointQuad2 [(0, [(1/2, halfKernel)])] 0 (1/2) 3 =
     Inr (halfKernel, [(0, [(1/2, halfKernel)])]) \<and>
   getImage diskQuad midpointQuad2 [] 0 (1/2) 1 =
     Inr (halfKernel, [(0, [(1/2, halfKernel)])]) \<and>
   cacheFind [] 0 (1/2) = None \<and>
   synthesize diskQuad midpointQuad2 (toFloat 0) (toFloat (1/2)) 1 = Inr halfKernel"
proof -
  have h: "cacheFind [(0, [(1/2, halfKernel)])] 0 (1/2) = Some halfKernel"
    by (simp add: cacheFind_def fuzzyCompare_def float_simps epsilon_def)
  have n: "cacheFind [] 0 (1/2) = None" by (simp add: cacheFind_def)
  have g: "getImage diskQuad midpointQuad2 [] 0 (1/2) 1 =
      Inr (halfKernel, [(0, [(1/2, halfKernel)])])"
    by (simp add: getImage_def calculateImage_def cacheFind_def synthesize_half cacheStore_def
        float_simps)
  note T = getImage_hit_ignores_taperwidth[of "[(0, [(1/2, halfKernel)])]" 0 "1/2" halfKernel
      diskQuad midpointQuad2 3 "[]" 1 halfKernel "[(0, [(1/2, halfKernel)])]" 3]
  from T h g n show ?thesis by blast
qed

subsection \<open>The measurement\<close>

text \<open>
  C1. The claim gives the flux as the sum of weight times data over the pixels of the
  clipped kernel box, and the error as the square root of the sum of squared weight times
  variance. \<open>operator()\<close> computes these sums (\<open>applyFunctor_live_sums\<close>), but the
  functor reaches the weight image through a reference to the constructor's by-value
  parameter, which is dead once the constructor has returned: \<open>reset\<close> and
  \<open>operator()\<close> read through a dangling reference. So every measurement that reaches
  the functor is undefined behaviour: whatever the images and the box, and for the kernel
  of radius 1/2 on the 50 by 50 image with the peak at \<open>(25, 25)\<close>.
\<close>

theorem doMeasure_reads_dead_reference:
  "measureFlux mimage cimage box = Inl UndefinedBehaviour \<and>
   doMeasure shiftOrigin cropImage diskQuad midpointQuad2 [] 0 (1/2) flatImage (Some (25, 25))
     = Inl UndefinedBehaviour"
proof
  show "measureFlux mimage cimage box = Inl UndefinedBehaviour" by (rule measureFlux_undefined)
  have k: "iwidth halfKernel = 22" "iheight halfKernel = 22" "ix0 halfKernel = - 11"
    "iy0 halfKernel = - 11"
    by (simp_all add: halfKernel_def coeffWindow_def Let_def truncInt_def signed_divide_int_def)
  show "doMeasure shiftOrigin cropImage diskQuad midpointQuad2 [] 0 (1/2) flatImage
          (Some (25, 25)) = Inl UndefinedBehaviour"
    by (simp add: measure_defs synthesize_half cacheStore_def k measureFlux_undefined)
qed

text \<open>
  C2. The claim asks that a kernel box with no pixel in common with the data image gives
  the failure result, without an exception. \<open>doMeasure\<close> has no test for an empty
  intersection. For the 3 by 3 kernel shifted to the corner \<open>(199, 199)\<close> and the data
  image of 50 by 50 pixels at the origin, the clipped corners are \<open>x1 = 199\<close> and
  \<open>x2 = 49\<close>, a box of width \<open>-149\<close>, which is handed to the sub-image constructor;
  with a constructor that refuses a box that does not fit, the measurement ends in its
  exception. With a peak given, no run of \<open>doMeasure\<close> ends in the result with NaN
  flux and NaN error, whatever the external routines do.
\<close>

theorem doMeasure_outside_image:
  "clipBounds (shiftOrigin unitKernel 200 200) flatImage = (199, 199, 49, 49) \<and>
   doMeasure shiftOrigin cropImage diskQuad midpointQuad2 [(0, [(1, unitKernel)])] 0 1
     flatImage (Some (200, 200)) = Inl LengthErrorException \<and>
   doMeasure offsetImage subImage integrate integrate2d coeffImages innerRadius radius
     mimage (Some peak) \<noteq> Inr (\<lparr> flux = None, fluxErr = None \<rparr>, coeffImages')"
proof (intro conjI)
  show "clipBounds (shiftOrigin unitKernel 200 200) flatImage = (199, 199, 49, 49)"
    by (simp add: shiftOrigin_def flatImage_def unitKernel_def clipBounds_def Let_def)
  show "doMeasure shiftOrigin cropImage diskQuad midpointQuad2 [(0, [(1, unitKernel)])] 0 1
     flatImage (Some (200, 200)) = Inl LengthErrorException"
    by (simp add: measure_defs)
  show "doMeasure offsetImage subImage integrate integrate2d coeffImages innerRadius radius
     mimage (Some peak) \<noteq> Inr (\<lparr> flux = None, fluxErr = None \<rparr>, coeffImages')"
    by (auto simp: doMeasure_def measureFlux_undefined split: sum.splits prod.splits)
qed

subsection \<open>The radial profile\<close>

text \<open>
  C8, as stated: the ratio passed at step 0 is zero. For the radii 0 and 3 and the shape
  of axes 4 and 1 the outer semi-major axis of step 0 is 0, the ratio passed is
  \<open>0.0 / 0.0\<close>, which is NaN, and \<open>_apply\<close> returns normally.
\<close>

theorem apply_profile_first_ratio_counterexample:
  "snd (apply_profile ratioProbe [0, 3] roundSource flatImage (10, 10)) = None \<and>
   fluxField (fst (apply_profile ratioProbe [0, 3] roundSource flatImage (10, 10))) 0 = Some NaN"
  by (simp add: apply_profile_def roundSource_def ratioProbe_def scale_def dsqrt_def Let_def)

text \<open>
  C8, amended: with a valid shape whose axes have a positive product and with radii
  that are not zero, step \<open>i\<close> of the profile calls the flux routine on the shape
  scaled by \<open>radii[i] / sqrt (a b)\<close> with the ratio 0 at step 0 and, at a later step,
  the semi-major axis of the previous step's ellipse divided by that of the current one:
  whenever the routine returns on these arguments, \<open>_apply\<close> stores its results in the
  flux and error fields of the steps, sets the count to the number of radii and clears
  the flag. The semi-major axes are finite and not zero, and the inner boundary of each
  annulus, the ratio times the semi-major axis, is the outer boundary of the one before.
\<close>

theorem apply_profile_ratios:
  fixes src :: source and radii :: "real list"
  defines "fac \<equiv> 1 / sqrt (axisA (shape src) * axisB (shape src))"
  defines "outerA \<equiv> \<lambda>i. axisA (shape src) * (fac * radii ! i)"
  defines "ratio \<equiv> \<lambda>i. if i = 0 then 0 else outerA (i - 1) / outerA i"
  assumes "\<not> shapeFlag src"
    and "0 < axisA (shape src) * axisB (shape src)"
    and "\<forall>i<length radii. radii ! i \<noteq> 0"
    and "\<forall>i<length radii.
           calc mimage (scale (shape src) (Finite (fac * radii ! i)), center) (Finite (ratio i))
             = Inr (res i)"
  shows "\<exists>src'. apply_profile calc radii src mimage center = (src', None) \<and>
           flag src' = False \<and> nProfile src' = int (length radii) \<and>
           (\<forall>i<length radii. fluxField src' i = Some (fst (res i)) \<and>
                             errField src' i = Some (snd (res i))) \<and>
           (\<forall>i<length radii.
              axisA (scale (shape src) (Finite (fac * radii ! i))) = Finite (outerA i) \<and>
              outerA i \<noteq> 0) \<and>
           (\<forall>i<length radii. 0 < i \<longrightarrow> ratio i * outerA i = outerA (i - 1))"
proof -
  have ab: "0 < sqrt (axisA (shape src) * axisB (shape src))" using assms(5) by simp
  have a0: "axisA (shape src) \<noteq> 0" using assms(5) by auto
  have b0: "axisB (shape src) \<noteq> 0" using assms(5) by auto
  have fac0: "fac \<noteq> 0" using a0 b0 by (simp add: fac_def)
  have facd: "ddiv (Finite 1) (dsqrt (axisA (shape src) * axisB (shape src))) = Finite fac"
    using assms(5) a0 b0 by (simp add: dsqrt_def fac_def)
  have outA: "\<And>x. axisA (scale (shape src) (dmult (Finite fac) (Finite x)))
                = Finite (axisA (shape src) * (fac * x))"
    by (simp add: scale_def)
  have nz: "\<forall>i<length radii. outerA i \<noteq> 0"
    using assms(6) a0 fac0 by (simp add: outerA_def)
  have a: "\<forall>j<length radii.
      calc mimage (scale (shape src) (dmult (Finite fac) (Finite (radii ! j))), center)
             (ddiv (if j = 0 then Finite 0
                    else axisA (scale (shape src) (dmult (Finite fac) (Finite (radii ! (j - 1))))))
                   (axisA (scale (shape src) (dmult (Finite fac) (Finite (radii ! j))))))
             = Inr (res j)"
  proof (intro allI impI)
    fix j assume j: "j < length radii"
    from nz j have nzj: "axisA (shape src) * (fac * radii ! j) \<noteq> 0" by (simp add: outerA_def)
    have "ddiv (if j = 0 then Finite 0
                else axisA (scale (shape src) (dmult (Finite fac) (Finite (radii ! (j - 1))))))
               (axisA (scale (shape src) (dmult (Finite fac) (Finite (radii ! j)))))
          = Finite (ratio j)"
      unfolding outA using nzj by (cases "j = 0") (simp_all add: ratio_def outerA_def)
    with assms(7)[rule_format, OF j]
    show "calc mimage (scale (shape src) (dmult (Finite fac) (Finite (radii ! j))), center)
             (ddiv (if j = 0 then Finite 0
                    else axisA (scale (shape src) (dmult (Finite fac) (Finite (radii ! (j - 1))))))
                   (axisA (scale (shape src) (dmult (Finite fac) (Finite (radii ! j))))))
             = Inr (res j)"
      by simp
  qed
  note loop = profileLoop_all[where res = res and rs = radii and orad = "Finite 0"
      and calc = calc and shp = "shape src" and fac = "Finite fac" and i = 0
      and src = "src\<lparr>flag := True, nProfile := 0\<rparr>", OF a]
  have "apply_profile calc radii src mimage center =
      (case profileLoop calc mimage (shape src) center (Finite fac) radii 0 (Finite 0)
              (src\<lparr>flag := True, nProfile := 0\<rparr>) of
         (source2, Some e) \<Rightarrow> (source2, Some e)
       | (source2, None) \<Rightarrow> (source2\<lparr>nProfile := int (length radii), flag := False\<rparr>, None))"
    using assms(4) by (simp add: apply_profile_def Let_def facd)
  also note loop
  finally have run: "\<exists>src'. apply_profile calc radii src mimage center = (src', None) \<and>
           flag src' = False \<and> nProfile src' = int (length radii) \<and>
           (\<forall>i<length radii. fluxField src' i = Some (fst (res i)) \<and>
                             errField src' i = Some (snd (res i)))"
    by simp
  have ax: "\<forall>i<length radii.
              axisA (scale (shape src) (Finite (fac * radii ! i))) = Finite (outerA i) \<and>
              outerA i \<noteq> 0"
    using nz by (simp add: scale_def outerA_def)
  have "\<forall>i<length radii. 0 < i \<longrightarrow> ratio i * outerA i = outerA (i - 1)"
    using nz by (simp add: ratio_def)
  with run ax show ?thesis by blast
qed

theorem apply_profile_ratios_witness:
  "\<exists>src'. apply_profile ratioProbe [3, 6] roundSource flatImage (10, 10) = (src', None) \<and>
      flag src' = False \<and> nProfile src' = 2 \<and>
      fluxField src' 0 = Some (Finite 0) \<and> fluxField src' 1 = Some (Finite (1/2)) \<and>
      errField src' 0 = Some (Finite 6) \<and> errField src' 1 = Some (Finite 12)"
proof -
  have ns: "\<not> shapeFlag roundSource" by (simp add: roundSource_def)
  have pos: "0 < axisA (shape roundSource) * axisB (shape roundSource)"
    by (simp add: roundSource_def)
  have nz: "\<forall>i<length [3, 6::real]. [3, 6::real] ! i \<noteq> 0" by (simp add: All_less_Suc)
  let ?res = "\<lambda>i::nat. (Finite (if i = 0 then 0 else 1/2), Finite (if i = 0 then 6 else 12))"
  let ?fac = "1 / sqrt (axisA (shape roundSource) * axisB (shape roundSource))"
  have a: "\<forall>i<length [3, 6::real].
           ratioProbe flatImage (scale (shape roundSource) (Finite (?fac * [3, 6] ! i)), (10, 10))
             (Finite (if i = 0 then 0
              else axisA (shape roundSource) * (?fac * [3, 6] ! (i - 1))
                 / (axisA (shape roundSource) * (?fac * [3, 6] ! i)))) = Inr (?res i)"
    by (simp add: All_less_Suc ratioProbe_def roundSource_def scale_def)
  from apply_profile_ratios[where res = ?res and radii = "[3, 6]" and calc = ratioProbe,
      OF ns pos nz a]
  obtain src' where
    s: "apply_profile ratioProbe [3, 6] roundSource flatImage (10, 10) = (src', None)"
      "flag src' = False" "nProfile src' = int (length [3, 6::real])"
      "\<forall>i<length [3, 6::real]. fluxField src' i = Some (fst (?res i)) \<and>
                                errField src' i = Some (snd (?res i))"
    by blast
  from s(4)[rule_format, of 0] s(4)[rule_format, of 1] have
    "fluxField src' 0 = Some (Finite 0)" "fluxField src' 1 = Some (Finite (1/2))"
    "errField src' 0 = Some (Finite 6)" "errField src' 1 = Some (Finite 12)"
    by simp_all
  with s(1,2,3) show ?thesis by auto
qed

text \<open>
  C9. When the shape of the source is flagged invalid, \<open>_apply\<close> returns at once: the
  flag is set, the count is zero, every other field of the source, the flux and error
  fields among them, is as it was, and the flux routine is not called (the result is
  the same for every such routine, also for one that always throws).
\<close>

theorem apply_profile_bad_shape:
  "shapeFlag src \<Longrightarrow>
   apply_profile calc radii src mimage center = (src\<lparr>flag := True, nProfile := 0\<rparr>, None)"
  by (simp add: apply_profile_def Let_def)

theorem apply_profile_bad_shape_witness:
  "shapeFlag (roundSource\<lparr>shapeFlag := True\<rparr>) \<and>
   apply_profile failingFlux [3, 6] (roundSource\<lparr>shapeFlag := True\<rparr>) flatImage (10, 10) =
     (roundSource\<lparr>shapeFlag := True, flag := True, nProfile := 0\<rparr>, None)"
  using apply_profile_bad_shape[of "roundSource\<lparr>shapeFlag := True\<rparr>" failingFlux "[3, 6]"
      flatImage "(10, 10)"]
  by simp

end
